theory Spec2Isabelle
  imports Complex_Main "HOL-Library.Product_Lexorder"
begin

section \<open>Child anthropometry pipeline: \<open>child.py\<close> and \<open>2.py\<close>\<close>

text \<open>
  The two scripts \<open>src/application/ml_cv/child.py\<close> (imported by \<open>api_server.py\<close>) and
  \<open>src/application/ml_cv/2.py\<close> are two variants of one measurement pipeline. A function
  whose text is the same in both files is embedded once; a function that differs is embedded
  twice, with the suffixes \<open>_child\<close> and \<open>_2\<close>.

  Conventions of the embedding:
  \<^item> Python floats are embedded as \<^typ>\<open>real\<close>: rounding error, infinities and NaN are
    outside the model. Python \<open>int\<close> is \<^typ>\<open>int\<close>.
  \<^item> OpenCV and MediaPipe are external: what they compute from the image (contours and their
    rectangles, edge maps of a crop, pose landmarks) is a field of the record \<open>image\<close>.
  \<^item> \<open>random.uniform(a, b)\<close> is \<open>a + (b - a) * random.random()\<close>; the draw
    \<open>u = random.random()\<close>, with \<open>0 \<le> u < 1\<close>, is a parameter.
  \<^item> An exception is a value of type \<open>error\<close>, on the left of a sum.
  \<^item> The messages printed by \<open>estimate_wrist_from_arm_length\<close> are embedded as a list of
    \<open>event\<close>s, in the order they are printed; the other diagnostic messages are not.
\<close>

subsection \<open>Python and NumPy primitives\<close>

datatype error = UnableToOpenImage | ScaleNotFound | PoseNotDetected | ZeroDivisionError

text \<open>\<open>int(r)\<close> on a float truncates towards zero.\<close>

definition py_int :: "real \<Rightarrow> int" where
  "py_int r = (if 0 \<le> r then \<lfloor>r\<rfloor> else \<lceil>r\<rceil>)"

text \<open>\<open>a / b\<close> on Python floats raises \<open>ZeroDivisionError\<close> when \<open>b\<close> is zero.\<close>

definition py_truediv :: "real \<Rightarrow> real \<Rightarrow> error + real" where
  "py_truediv a b = (if b = 0 then Inl ZeroDivisionError else Inr (a / b))"

definition hypot :: "real \<Rightarrow> real \<Rightarrow> real" where
  "hypot a b = sqrt (a\<^sup>2 + b\<^sup>2)"

text \<open>\<open>range(a, b, 2)\<close>.\<close>

definition py_range2 :: "int \<Rightarrow> int \<Rightarrow> int list" where
  "py_range2 a b = map (\<lambda>k. a + 2 * int k) [0 ..< nat ((b - a + 1) div 2)]"

text \<open>
  \<open>max(xs, key=f)\<close> on a non-empty list \<open>x # xs\<close>: the first element whose key is maximal.
\<close>

definition py_max_key :: "('a \<Rightarrow> real) \<Rightarrow> 'a \<Rightarrow> 'a list \<Rightarrow> 'a" where
  "py_max_key f x xs = fold (\<lambda>y best. if f best < f y then y else best) xs x"

text \<open>
  \<open>xs.sort(key=f, reverse=True)\<close>: descending keys, and elements of equal key keep their
  original order (the sort is stable, also when reversed). \<^const>\<open>sort_key\<close> is a stable
  ascending sort.
\<close>

definition py_sort_desc :: "('a \<Rightarrow> 'k::linorder) \<Rightarrow> 'a list \<Rightarrow> 'a list" where
  "py_sort_desc f xs = rev (sort_key f (rev xs))"

text \<open>\<open>np.nonzero(row)[0]\<close>: the indices of the non-zero entries, ascending.\<close>

definition nonzero :: "bool list \<Rightarrow> nat list" where
  "nonzero row = filter (\<lambda>i. row ! i) [0 ..< length row]"

text \<open>\<open>np.median\<close> of a non-empty list of integers.\<close>

definition np_median :: "int list \<Rightarrow> real" where
  "np_median ws =
     (let s = sort ws; n = length s
      in if odd n then real_of_int (s ! (n div 2))
         else (real_of_int (s ! (n div 2 - 1)) + real_of_int (s ! (n div 2))) / 2)"

text \<open>\<open>np.mean\<close> of a non-empty list.\<close>

definition np_mean :: "real list \<Rightarrow> real" where
  "np_mean ms = sum_list ms / real (length ms)"

text \<open>
  The length of the NumPy slice \<open>a[s:t]\<close> along an axis of length \<open>n\<close>, for \<open>s \<ge> 0\<close>: a
  negative \<open>t\<close> counts from the end, and both bounds are clipped to the axis.
\<close>

definition np_slice_len :: "int \<Rightarrow> int \<Rightarrow> int \<Rightarrow> int" where
  "np_slice_len n s t =
     (let t' = (if t < 0 then max 0 (t + n) else min t n); s' = min s n
      in max 0 (t' - s'))"

text \<open>\<open>random.uniform(a, b)\<close> over the draw \<open>u\<close> of \<open>random.random()\<close>.\<close>

definition py_uniform :: "real \<Rightarrow> real \<Rightarrow> real \<Rightarrow> real" where
  "py_uniform a b u = a + (b - a) * u"

subsection \<open>Data model\<close>

datatype PoseLandmark =
    NOSE | LEFT_EYE | RIGHT_EYE | LEFT_EAR | RIGHT_EAR
  | LEFT_SHOULDER | RIGHT_SHOULDER | LEFT_ELBOW | RIGHT_ELBOW
  | LEFT_WRIST | RIGHT_WRIST
  | LEFT_ANKLE | RIGHT_ANKLE | LEFT_HEEL | RIGHT_HEEL
  | LEFT_FOOT_INDEX | RIGHT_FOOT_INDEX

record landmark =
  lm_x :: real
  lm_y :: real
  visibility :: real

text \<open>MediaPipe returns every landmark of the enumeration, so the lookup is total.\<close>

type_synonym landmarks = "PoseLandmark \<Rightarrow> landmark"

datatype side = LEFT | RIGHT

fun shoulder_of :: "side \<Rightarrow> PoseLandmark" where
  "shoulder_of LEFT = LEFT_SHOULDER"
| "shoulder_of RIGHT = RIGHT_SHOULDER"

fun elbow_of :: "side \<Rightarrow> PoseLandmark" where
  "elbow_of LEFT = LEFT_ELBOW"
| "elbow_of RIGHT = RIGHT_ELBOW"

fun wrist_of :: "side \<Rightarrow> PoseLandmark" where
  "wrist_of LEFT = LEFT_WRIST"
| "wrist_of RIGHT = RIGHT_WRIST"

text \<open>A rotated rectangle of \<open>cv2.minAreaRect\<close>: \<open>((cx, cy), (rw, rh), angle)\<close>.\<close>

type_synonym rect = "(real \<times> real) \<times> (real \<times> real) \<times> real"

text \<open>
  A contour of the scale detector's edge map, with what \<open>cv2.contourArea\<close> and
  \<open>cv2.minAreaRect\<close> return for it.
\<close>

record contour =
  contourArea :: real
  minAreaRect :: rect

text \<open>
  A contour of the thresholded wrist crop (\<open>2.py\<close>), with \<open>cv2.contourArea\<close>, the moments
  \<open>m00\<close>, \<open>m10\<close>, \<open>m01\<close> and the width and height of \<open>cv2.boundingRect\<close>.
\<close>

record crop_contour =
  cc_area :: real
  m00 :: real
  m10 :: real
  m01 :: real
  bounding_w :: int
  bounding_h :: int

text \<open>The crop bounds \<open>(y0, y1, x0, x1)\<close> of \<open>image[y0:y1, x0:x1]\<close>.\<close>

type_synonym crop = "int \<times> int \<times> int \<times> int"

record image =
  img_shape :: "int \<times> int"
  scale_contours :: "contour list"
  pose_landmarks :: "landmarks option"
  crop_edges :: "crop \<Rightarrow> bool list list"
  crop_edges2 :: "crop \<Rightarrow> bool list list"
  crop_thresh_contours :: "crop \<Rightarrow> crop_contour list"

text \<open>
  \<^item> \<open>img_shape\<close> is \<open>img.shape[:2]\<close>, that is \<open>(h, w)\<close>;
  \<^item> \<open>scale_contours\<close> is \<open>findContours(Canny(GaussianBlur(gray, (5, 5), 0), 50, 150))\<close>;
  \<^item> \<open>pose_landmarks\<close> is \<open>results.pose_landmarks\<close>, \<open>None\<close> when no subject is found;
  \<^item> \<open>crop_edges c\<close> is \<open>Canny(bilateralFilter(gray(crop), 9, 75, 75), 30, 90)\<close>, a list of
    rows, an entry being true where the edge map is non-zero;
  \<^item> \<open>crop_edges2 c\<close> is \<open>Canny(GaussianBlur(gray(crop), (5, 5), 0), 20, 60)\<close>;
  \<^item> \<open>crop_thresh_contours c\<close> is \<open>findContours(adaptiveThreshold(gray(crop), ...))\<close>.
\<close>

text \<open>
  The dictionary returned by \<open>process_image\<close>; the field \<open>res_k\<close> is the value of the
  key \<open>k\<close>.
\<close>

record MeasurementResult =
  res_height_cm :: real
  res_head_circumference_cm :: real
  res_wrist_circumference_cm :: "real option"
  res_wrist_fallback_used :: bool
  res_pixel_per_cm :: real

datatype event =
    Attempting
  | ArmVisibility side
  | Forearm side
  | EstimatedFrom side
  | OutOfRange side
  | FallbackFailed
  | UsingTypical

text \<open>
  The events are the messages of \<open>estimate_wrist_from_arm_length\<close>: "Attempting wrist
  estimation from arm length", "Left/Right arm visibility: ...", "Left/Right forearm: ...",
  "Wrist estimated from LEFT/RIGHT arm", "Left/Right arm calculation out of range", "Arm
  length fallback failed with error" and "Using typical child wrist circumference".
\<close>

subsection \<open>Scale detector\<close>

text \<open>
  The loop over the contours of \<open>detect_scale_pixel_length\<close> in \<open>child.py\<close>: a candidate is
  the tuple \<open>(area, long_side, rect)\<close>.
\<close>

fun scale_candidates_child :: "int \<Rightarrow> int \<Rightarrow> contour list \<Rightarrow> (real \<times> real \<times> rect) list" where
  "scale_candidates_child w h [] = []"
| "scale_candidates_child w h (cnt # cnts) =
     (let area = contourArea cnt
      in if area < 0.0005 * real_of_int w * real_of_int h then scale_candidates_child w h cnts
         else
           let rect = minAreaRect cnt;
               rw = fst (fst (snd rect));
               rh = snd (fst (snd rect));
               long_side = max rw rh;
               short_side = min rw rh
           in if short_side \<le> 0 then scale_candidates_child w h cnts
              else
                let aspect = long_side / (short_side + 1 / 100000000)
                in if aspect > 3 \<and> long_side > 0.05 * real_of_int (max w h)
                      \<and> long_side < 0.9 * real_of_int (max w h)
                   then (area, long_side, rect) # scale_candidates_child w h cnts
                   else scale_candidates_child w h cnts)"

text \<open>The same loop in \<open>2.py\<close>: a candidate is \<open>(area, long_side, rect, aspect)\<close>.\<close>

fun scale_candidates_2 :: "int \<Rightarrow> int \<Rightarrow> contour list \<Rightarrow> (real \<times> real \<times> rect \<times> real) list" where
  "scale_candidates_2 w h [] = []"
| "scale_candidates_2 w h (cnt # cnts) =
     (let area = contourArea cnt
      in if area < 0.0005 * real_of_int w * real_of_int h then scale_candidates_2 w h cnts
         else
           let rect = minAreaRect cnt;
               rw = fst (fst (snd rect));
               rh = snd (fst (snd rect));
               long_side = max rw rh;
               short_side = min rw rh
           in if short_side \<le> 0 then scale_candidates_2 w h cnts
              else
                let aspect = long_side / (short_side + 1 / 100000000)
                in if aspect > 8 \<and> long_side > 0.08 * real_of_int (max w h)
                      \<and> long_side < 0.4 * real_of_int (max w h)
                   then (area, long_side, rect, aspect) # scale_candidates_2 w h cnts
                   else scale_candidates_2 w h cnts)"

text \<open>The fallback of both files: the long side of the contour of largest area.\<close>

definition largest_contour_long_side :: "contour list \<Rightarrow> real option" where
  "largest_contour_long_side contours =
     (case contours of
        [] \<Rightarrow> None
      | c # cs \<Rightarrow>
          let best_cnt = py_max_key contourArea c cs;
              rect = minAreaRect best_cnt
          in Some (max (fst (fst (snd rect))) (snd (fst (snd rect)))))"

text \<open>\<open>child.py\<close> sorts the candidates by area, descending, and takes the first.\<close>

definition detect_scale_pixel_length_child :: "image \<Rightarrow> real option" where
  "detect_scale_pixel_length_child img =
     (let contours = scale_contours img;
          h = fst (img_shape img);
          w = snd (img_shape img);
          candidates = scale_candidates_child w h contours
      in if candidates = [] then largest_contour_long_side contours
         else
           let sorted_candidates = py_sort_desc (\<lambda>x. fst x) candidates;
               pixel_length = fst (snd (hd sorted_candidates))
           in Some pixel_length)"

text \<open>\<open>2.py\<close> sorts the candidates by \<open>(aspect, long_side)\<close>, descending, and takes the first.\<close>

definition detect_scale_pixel_length_2 :: "image \<Rightarrow> real option" where
  "detect_scale_pixel_length_2 img =
     (let contours = scale_contours img;
          h = fst (img_shape img);
          w = snd (img_shape img);
          candidates = scale_candidates_2 w h contours
      in if candidates = [] then largest_contour_long_side contours
         else
           let sorted_candidates = py_sort_desc (\<lambda>x. (snd (snd (snd x)), fst (snd x))) candidates;
               pixel_length = fst (snd (hd sorted_candidates))
           in Some pixel_length)"

subsection \<open>Geometry extractors (the same text in both files)\<close>

text \<open>
  \<open>estimate_head_top_y\<close>. The landmark lookup is total, so the \<open>except\<close> branch with the
  fixed offset \<open>0.06\<close> is never taken.
\<close>

definition estimate_head_top_y :: "landmarks \<Rightarrow> int \<Rightarrow> real" where
  "estimate_head_top_y landmarks image_h =
     (let ys = map (\<lambda>name. lm_y (landmarks name)) [LEFT_EYE, RIGHT_EYE, NOSE, LEFT_EAR, RIGHT_EAR];
          min_y = Min (set ys);
          shoulder_y = (lm_y (landmarks LEFT_SHOULDER) + lm_y (landmarks RIGHT_SHOULDER)) / 2;
          offset = max 0.04 (0.14 * \<bar>shoulder_y - min_y\<bar>);
          top_y = max 0 (min_y - offset)
      in top_y * real_of_int image_h)"

definition estimate_feet_y :: "landmarks \<Rightarrow> int \<Rightarrow> real" where
  "estimate_feet_y landmarks image_h =
     (let ys = map (\<lambda>name. lm_y (landmarks name))
                 [LEFT_ANKLE, RIGHT_ANKLE, LEFT_HEEL, RIGHT_HEEL, LEFT_FOOT_INDEX, RIGHT_FOOT_INDEX];
          feet_y = Max (set ys)
      in min (real_of_int image_h) (feet_y * real_of_int image_h))"

definition landmark_point_to_pixel :: "landmark \<Rightarrow> int \<Rightarrow> int \<Rightarrow> int \<times> int" where
  "landmark_point_to_pixel lm image_w image_h =
     (py_int (lm_x lm * real_of_int image_w), py_int (lm_y lm * real_of_int image_h))"

subsection \<open>Head circumference\<close>

text \<open>\<open>measure_head_circumference\<close> of \<open>child.py\<close>.\<close>

definition measure_head_circumference_child :: "landmarks \<Rightarrow> int \<Rightarrow> int \<Rightarrow> real \<Rightarrow> error + real" where
  "measure_head_circumference_child landmarks image_w image_h pixel_per_cm =
     (let left_ear = landmarks LEFT_EAR;
          right_ear = landmarks RIGHT_EAR;
          left_eye = landmarks LEFT_EYE;
          right_eye = landmarks RIGHT_EYE;
          head_width_px =
            (if visibility left_ear > 0.3 \<and> visibility right_ear > 0.3
             then
               let (lx, ly) = landmark_point_to_pixel left_ear image_w image_h;
                   (rx, ry) = landmark_point_to_pixel right_ear image_w image_h
               in hypot (real_of_int (rx - lx)) (real_of_int (ry - ly))
             else
               let (lx, ly) = landmark_point_to_pixel left_eye image_w image_h;
                   (rx, ry) = landmark_point_to_pixel right_eye image_w image_h
               in hypot (real_of_int (rx - lx)) (real_of_int (ry - ly)) * 1.6)
      in case py_truediv head_width_px pixel_per_cm of
           Inl e \<Rightarrow> Inl e
         | Inr head_width_cm \<Rightarrow> Inr (pi * head_width_cm * 1.08))"

text \<open>\<open>measure_head_circumference\<close> of \<open>2.py\<close>.\<close>

definition measure_head_circumference_2 :: "landmarks \<Rightarrow> int \<Rightarrow> int \<Rightarrow> real \<Rightarrow> error + real" where
  "measure_head_circumference_2 landmarks image_w image_h pixel_per_cm =
     (let left_ear = landmarks LEFT_EAR;
          right_ear = landmarks RIGHT_EAR;
          left_eye = landmarks LEFT_EYE;
          right_eye = landmarks RIGHT_EYE;
          head_width_px =
            (if visibility left_ear > 0.3 \<and> visibility right_ear > 0.3
             then
               let (lx, ly) = landmark_point_to_pixel left_ear image_w image_h;
                   (rx, ry) = landmark_point_to_pixel right_ear image_w image_h
               in hypot (real_of_int (rx - lx)) (real_of_int (ry - ly))
             else
               let (lx, ly) = landmark_point_to_pixel left_eye image_w image_h;
                   (rx, ry) = landmark_point_to_pixel right_eye image_w image_h
               in hypot (real_of_int (rx - lx)) (real_of_int (ry - ly)) * 1.6)
      in case py_truediv head_width_px pixel_per_cm of
           Inl e \<Rightarrow> Inl e
         | Inr head_width_cm \<Rightarrow> Inr (pi * head_width_cm * 1.08))"

subsection \<open>Wrist circumference, primary path\<close>

text \<open>
  The width found on one scanline \<open>y = center_y + dy\<close> of the edge map: the distance between
  the last and the first edge pixel of the row, kept when it lies strictly between \<open>lo\<close>
  and \<open>hi\<close>.
\<close>

definition scanline_width :: "bool list list \<Rightarrow> int \<Rightarrow> int \<Rightarrow> int \<Rightarrow> int \<Rightarrow> int list" where
  "scanline_width edges center_y lo hi dy =
     (let y = center_y + dy
      in if 0 \<le> y \<and> y < int (length edges)
         then
           let nz = nonzero (edges ! nat y)
           in if length nz \<ge> 2
              then
                let width = int (last nz) - int (hd nz)
                in if lo < width \<and> width < hi then [width] else []
              else []
         else [])"

definition scanline_widths :: "bool list list \<Rightarrow> int \<Rightarrow> int \<Rightarrow> int \<Rightarrow> int \<Rightarrow> int list" where
  "scanline_widths edges center_y search_range lo hi =
     concat (map (scanline_width edges center_y lo hi) (py_range2 (- search_range) search_range))"

text \<open>
  The conversion of the collected widths of one side into a circumference, kept when it lies
  in the band \<open>[lo, hi]\<close>. The median is a NumPy float: dividing it by a zero
  \<open>pixel_per_cm\<close> gives an infinity (no exception), which fails the band check.
\<close>

definition side_circumference :: "int list \<Rightarrow> real \<Rightarrow> real \<Rightarrow> real \<Rightarrow> real list" where
  "side_circumference wrist_widths pixel_per_cm lo hi =
     (if wrist_widths \<noteq> []
      then
        if pixel_per_cm = 0 then []
        else
          let wrist_width_px = np_median wrist_widths;
              wrist_width_cm = wrist_width_px / pixel_per_cm;
              wrist_circ = pi * wrist_width_cm * 1.3
          in if lo \<le> wrist_circ \<and> wrist_circ \<le> hi then [wrist_circ] else []
      else [])"

text \<open>
  The body of the loop \<open>for side in ['LEFT', 'RIGHT']\<close> of \<open>child.py\<close>, in two parts. The
  first part collects \<open>wrist_widths\<close>; it is \<open>None\<close> where the source leaves the iteration
  with \<open>continue\<close>.
\<close>

definition wrist_widths_child :: "landmarks \<Rightarrow> image \<Rightarrow> int \<Rightarrow> int \<Rightarrow> side \<Rightarrow> int list option" where
  "wrist_widths_child landmarks img image_w image_h sd =
     (let wrist = landmarks (wrist_of sd)
      in if visibility wrist < 0.5 then None
         else
           let (wx, wy) = landmark_point_to_pixel wrist image_w image_h;
               crop_size = py_int (max 50 (0.05 * real_of_int (max image_w image_h)));
               x0 = max 0 (wx - crop_size);
               x1 = min image_w (wx + crop_size);
               y0 = max 0 (wy - crop_size);
               y1 = min image_h (wy + crop_size);
               crop_shape0 = np_slice_len (fst (img_shape img)) y0 y1;
               crop_shape1 = np_slice_len (snd (img_shape img)) x0 x1
           in if crop_shape0 * crop_shape1 = 0 then None
              else
                let edges = crop_edges img (y0, y1, x0, x1);
                    center_y = crop_shape0 div 2;
                    search_range = crop_shape0 div 4
                in Some (scanline_widths edges center_y search_range 10 80))"

text \<open>The second part converts the widths and applies the sanity check (8 to 16 cm).\<close>

definition wrist_side_child :: "landmarks \<Rightarrow> image \<Rightarrow> int \<Rightarrow> int \<Rightarrow> real \<Rightarrow> side \<Rightarrow> real list" where
  "wrist_side_child landmarks img image_w image_h pixel_per_cm sd =
     (case wrist_widths_child landmarks img image_w image_h sd of
        None \<Rightarrow> []
      | Some wrist_widths \<Rightarrow> side_circumference wrist_widths pixel_per_cm 8 16)"

definition wrist_measurements_child :: "landmarks \<Rightarrow> image \<Rightarrow> int \<Rightarrow> int \<Rightarrow> real \<Rightarrow> real list" where
  "wrist_measurements_child landmarks img image_w image_h pixel_per_cm =
     concat (map (wrist_side_child landmarks img image_w image_h pixel_per_cm) [LEFT, RIGHT])"

definition measure_wrist_circumference_child :: "landmarks \<Rightarrow> image \<Rightarrow> int \<Rightarrow> int \<Rightarrow> real \<Rightarrow> real option" where
  "measure_wrist_circumference_child landmarks img image_w image_h pixel_per_cm =
     (let wrist_measurements = wrist_measurements_child landmarks img image_w image_h pixel_per_cm
      in if wrist_measurements \<noteq> [] then Some (np_mean wrist_measurements) else None)"

text \<open>
  The contour fallback of \<open>2.py\<close> ("Method 2"): the contours of acceptable area whose
  centroid lies near the horizontal centre of the crop, as pairs
  \<open>(dist_from_center, cnt)\<close>.
\<close>

fun valid_contours :: "int \<Rightarrow> int \<Rightarrow> crop_contour list \<Rightarrow> (int \<times> crop_contour) list" where
  "valid_contours shape0 shape1 [] = []"
| "valid_contours shape0 shape1 (cnt # cnts) =
     (let area = cc_area cnt
      in if area < 50 \<or> area > real_of_int (shape0 * shape1) * 0.5
         then valid_contours shape0 shape1 cnts
         else
           if m00 cnt > 0
           then
             let center_x = shape1 div 2;
                 cx = py_int (m10 cnt / m00 cnt);
                 dist_from_center = \<bar>cx - center_x\<bar>
             in if real_of_int dist_from_center < real_of_int shape1 * 0.4
                then (dist_from_center, cnt) # valid_contours shape0 shape1 cnts
                else valid_contours shape0 shape1 cnts
           else valid_contours shape0 shape1 cnts)"

definition contour_fallback_width :: "int \<Rightarrow> int \<Rightarrow> crop_contour list \<Rightarrow> int list" where
  "contour_fallback_width shape0 shape1 contours =
     (if contours \<noteq> []
      then
        let valid = valid_contours shape0 shape1 contours
        in if valid \<noteq> []
           then
             let closest_cnt = snd (hd (sort_key fst valid));
                 wrist_width_px = min (bounding_w closest_cnt) (bounding_h closest_cnt)
             in if 5 < wrist_width_px \<and> wrist_width_px < 120 then [wrist_width_px] else []
           else []
      else [])"

text \<open>
  The body of the loop \<open>for side in ['LEFT', 'RIGHT']\<close> of \<open>2.py\<close>, in the same two
  parts: the widths of the scanlines, extended by the contour fallback when there are fewer
  than three of them, then the conversion and the relaxed sanity check (6 to 25 cm).
\<close>

definition wrist_widths_2 :: "landmarks \<Rightarrow> image \<Rightarrow> int \<Rightarrow> int \<Rightarrow> side \<Rightarrow> int list option" where
  "wrist_widths_2 landmarks img image_w image_h sd =
     (let wrist = landmarks (wrist_of sd)
      in if visibility wrist < 0.4 then None
         else
           let (wx, wy) = landmark_point_to_pixel wrist image_w image_h;
               crop_size = py_int (max 60 (0.06 * real_of_int (max image_w image_h)));
               x0 = max 0 (wx - crop_size);
               x1 = min image_w (wx + crop_size);
               y0 = max 0 (wy - crop_size);
               y1 = min image_h (wy + crop_size);
               crop_shape0 = np_slice_len (fst (img_shape img)) y0 y1;
               crop_shape1 = np_slice_len (snd (img_shape img)) x0 x1
           in if crop_shape0 * crop_shape1 = 0 then None
              else
                let edges1 = crop_edges img (y0, y1, x0, x1);
                    edges2 = crop_edges2 img (y0, y1, x0, x1);
                    edges = map2 (\<lambda>r1 r2. map2 (\<or>) r1 r2) edges1 edges2;
                    center_y = crop_shape0 div 2;
                    search_range = crop_shape0 div 3;
                    wrist_widths = scanline_widths edges center_y search_range 5 120
                in Some (if length wrist_widths < 3
                         then wrist_widths
                              @ contour_fallback_width crop_shape0 crop_shape1
                                  (crop_thresh_contours img (y0, y1, x0, x1))
                         else wrist_widths))"

definition wrist_side_2 :: "landmarks \<Rightarrow> image \<Rightarrow> int \<Rightarrow> int \<Rightarrow> real \<Rightarrow> side \<Rightarrow> real list" where
  "wrist_side_2 landmarks img image_w image_h pixel_per_cm sd =
     (case wrist_widths_2 landmarks img image_w image_h sd of
        None \<Rightarrow> []
      | Some wrist_widths \<Rightarrow> side_circumference wrist_widths pixel_per_cm 6 25)"

definition wrist_measurements_2 :: "landmarks \<Rightarrow> image \<Rightarrow> int \<Rightarrow> int \<Rightarrow> real \<Rightarrow> real list" where
  "wrist_measurements_2 landmarks img image_w image_h pixel_per_cm =
     concat (map (wrist_side_2 landmarks img image_w image_h pixel_per_cm) [LEFT, RIGHT])"

definition measure_wrist_circumference_2 :: "landmarks \<Rightarrow> image \<Rightarrow> int \<Rightarrow> int \<Rightarrow> real \<Rightarrow> real option" where
  "measure_wrist_circumference_2 landmarks img image_w image_h pixel_per_cm =
     (let wrist_measurements = wrist_measurements_2 landmarks img image_w image_h pixel_per_cm
      in if wrist_measurements \<noteq> [] then Some (np_mean wrist_measurements) else None)"

subsection \<open>Wrist circumference, arm-length fallback\<close>

text \<open>
  One arm of \<open>estimate_wrist_from_arm_length\<close> in \<open>child.py\<close> (the source writes the block
  out for the left arm and again for the right arm). The result is the messages printed and
  \<^item> \<open>Inr (Some v)\<close> when the block returns \<open>v\<close>,
  \<^item> \<open>Inr None\<close> when control falls through to the code after the block,
  \<^item> \<open>Inl e\<close> when the block raises \<open>e\<close>.
\<close>

definition try_arm_child :: "landmarks \<Rightarrow> side \<Rightarrow> int \<Rightarrow> int \<Rightarrow> real \<Rightarrow> event list \<times> (error + real option)" where
  "try_arm_child landmarks sd image_w image_h pixel_per_cm =
     (let elbow = landmarks (elbow_of sd);
          wrist = landmarks (wrist_of sd)
      in if visibility elbow > 0.3 \<and> visibility wrist > 0.3
         then
           let forearm_length_px =
                 hypot ((lm_x wrist - lm_x elbow) * real_of_int image_w)
                       ((lm_y wrist - lm_y elbow) * real_of_int image_h)
           in case py_truediv forearm_length_px pixel_per_cm of
                Inl e \<Rightarrow> ([ArmVisibility sd], Inl e)
              | Inr forearm_length_cm \<Rightarrow>
                  let wrist_circ = forearm_length_cm * 0.16
                  in if 8 \<le> wrist_circ \<and> wrist_circ \<le> 18
                     then ([ArmVisibility sd, Forearm sd, EstimatedFrom sd], Inr (Some wrist_circ))
                     else ([ArmVisibility sd, Forearm sd, OutOfRange sd], Inr None)
         else ([ArmVisibility sd], Inr None))"

text \<open>One arm in \<open>2.py\<close>: the shoulder is read and its visibility is checked as well.\<close>

definition try_arm_2 :: "landmarks \<Rightarrow> side \<Rightarrow> int \<Rightarrow> int \<Rightarrow> real \<Rightarrow> event list \<times> (error + real option)" where
  "try_arm_2 landmarks sd image_w image_h pixel_per_cm =
     (let shoulder = landmarks (shoulder_of sd);
          elbow = landmarks (elbow_of sd);
          wrist = landmarks (wrist_of sd)
      in if visibility shoulder > 0.3 \<and> visibility elbow > 0.3 \<and> visibility wrist > 0.3
         then
           let forearm_length_px =
                 hypot ((lm_x wrist - lm_x elbow) * real_of_int image_w)
                       ((lm_y wrist - lm_y elbow) * real_of_int image_h)
           in case py_truediv forearm_length_px pixel_per_cm of
                Inl e \<Rightarrow> ([ArmVisibility sd], Inl e)
              | Inr forearm_length_cm \<Rightarrow>
                  let wrist_circ = forearm_length_cm * 0.16
                  in if 8 \<le> wrist_circ \<and> wrist_circ \<le> 18
                     then ([ArmVisibility sd, Forearm sd, EstimatedFrom sd], Inr (Some wrist_circ))
                     else ([ArmVisibility sd, Forearm sd, OutOfRange sd], Inr None)
         else ([ArmVisibility sd], Inr None))"

text \<open>
  The function around the two blocks, the same in both files: the left arm, then the right
  arm; an exception of either block is caught and reported; then the typical value drawn
  from \<open>random.uniform(12.5, 14.5)\<close>. The result is the value returned and the messages
  printed.
\<close>

definition estimate_with ::
  "(side \<Rightarrow> event list \<times> (error + real option)) \<Rightarrow> real \<Rightarrow> real \<times> event list" where
  "estimate_with try_arm u =
     (let typical_child_wrist = py_uniform 12.5 14.5 u;
          (msgs_l, r_l) = try_arm LEFT
      in case r_l of
           Inr (Some wrist_circ) \<Rightarrow> (wrist_circ, Attempting # msgs_l)
         | Inl e \<Rightarrow> (typical_child_wrist, Attempting # msgs_l @ [FallbackFailed, UsingTypical])
         | Inr None \<Rightarrow>
             (let (msgs_r, r_r) = try_arm RIGHT
              in case r_r of
                   Inr (Some wrist_circ) \<Rightarrow> (wrist_circ, Attempting # msgs_l @ msgs_r)
                 | Inl e \<Rightarrow>
                     (typical_child_wrist,
                      Attempting # msgs_l @ msgs_r @ [FallbackFailed, UsingTypical])
                 | Inr None \<Rightarrow>
                     (typical_child_wrist, Attempting # msgs_l @ msgs_r @ [UsingTypical])))"

definition estimate_wrist_from_arm_length_child ::
  "landmarks \<Rightarrow> int \<Rightarrow> int \<Rightarrow> real \<Rightarrow> real \<Rightarrow> real \<times> event list" where
  "estimate_wrist_from_arm_length_child landmarks image_w image_h pixel_per_cm u =
     estimate_with (\<lambda>sd. try_arm_child landmarks sd image_w image_h pixel_per_cm) u"

definition estimate_wrist_from_arm_length_2 ::
  "landmarks \<Rightarrow> int \<Rightarrow> int \<Rightarrow> real \<Rightarrow> real \<Rightarrow> real \<times> event list" where
  "estimate_wrist_from_arm_length_2 landmarks image_w image_h pixel_per_cm u =
     estimate_with (\<lambda>sd. try_arm_2 landmarks sd image_w image_h pixel_per_cm) u"

subsection \<open>Orchestrator\<close>

text \<open>The local \<open>pixel_height\<close> of \<open>process_image\<close>.\<close>

definition pixel_height :: "landmarks \<Rightarrow> int \<Rightarrow> real" where
  "pixel_height landmarks h =
     (let top_y = estimate_head_top_y landmarks h;
          feet_y = estimate_feet_y landmarks h
      in max 0 (feet_y - top_y))"

text \<open>
  \<open>process_image\<close> of \<open>child.py\<close>. The argument is what \<open>cv2.imread\<close> returns (\<open>None\<close> for an
  unreadable file) and the draw of the random source. The three \<open>RuntimeError\<close>s are told
  apart by their message. The result carries the messages of the wrist fallback.
\<close>

definition process_image_child :: "image option \<Rightarrow> real \<Rightarrow> error + (MeasurementResult \<times> event list)" where
  "process_image_child imread u =
     (case imread of
        None \<Rightarrow> Inl UnableToOpenImage
      | Some img \<Rightarrow>
          (let h = fst (img_shape img);
               w = snd (img_shape img)
           in (case detect_scale_pixel_length_child img of
                 None \<Rightarrow> Inl ScaleNotFound
               | Some pixel_length \<Rightarrow>
                   (let pixel_per_cm = pixel_length / 15
                    in (case pose_landmarks img of
                          None \<Rightarrow> Inl PoseNotDetected
                        | Some landmarks \<Rightarrow>
                            (case py_truediv (pixel_height landmarks h) pixel_per_cm of
                               Inl e \<Rightarrow> Inl e
                             | Inr height_cm \<Rightarrow>
                                 (case measure_head_circumference_child landmarks w h pixel_per_cm of
                                    Inl e \<Rightarrow> Inl e
                                  | Inr head_circ_cm \<Rightarrow>
                                      (let (wrist_circ_cm, wrist_fallback_used, msgs) =
                                             (case measure_wrist_circumference_child
                                                     landmarks img w h pixel_per_cm of
                                                Some v \<Rightarrow> (v, False, [])
                                              | None \<Rightarrow>
                                                  (let (v, msgs) =
                                                         estimate_wrist_from_arm_length_child
                                                           landmarks w h pixel_per_cm u
                                                   in (v, True, msgs)))
                                       in Inr (\<lparr> res_height_cm = height_cm,
                                                 res_head_circumference_cm = head_circ_cm,
                                                 res_wrist_circumference_cm =
                                                   (if wrist_circ_cm \<noteq> 0
                                                    then Some wrist_circ_cm else None),
                                                 res_wrist_fallback_used = wrist_fallback_used,
                                                 res_pixel_per_cm = pixel_per_cm \<rparr>,
                                               msgs)))))))))"

subsection \<open>Notions used to state the properties\<close>

text \<open>
  The aspect ratio that both detectors compute for a rectangle,
  \<open>long_side / (short_side + 1e-8)\<close>.
\<close>

definition rect_aspect :: "rect \<Rightarrow> real" where
  "rect_aspect rect =
     max (fst (fst (snd rect))) (snd (fst (snd rect)))
       / (min (fst (fst (snd rect))) (snd (fst (snd rect))) + 1 / 100000000)"

text \<open>The Euclidean distance between two pixels.\<close>

definition pixel_distance :: "int \<times> int \<Rightarrow> int \<times> int \<Rightarrow> real" where
  "pixel_distance p q =
     sqrt ((real_of_int (fst q) - real_of_int (fst p))\<^sup>2
           + (real_of_int (snd q) - real_of_int (snd p))\<^sup>2)"

text \<open>
  The arms whose visibilities were reported, and the arms whose forearm estimate was
  computed and reported, in the order of the messages.
\<close>

fun arms_checked :: "event list \<Rightarrow> side list" where
  "arms_checked [] = []"
| "arms_checked (ArmVisibility sd # es) = sd # arms_checked es"
| "arms_checked (e # es) = arms_checked es"

fun arms_tried :: "event list \<Rightarrow> side list" where
  "arms_tried [] = []"
| "arms_tried (Forearm sd # es) = sd # arms_tried es"
| "arms_tried (e # es) = arms_tried es"

text \<open>
  The wrist estimate of one arm, \<open>forearm_length_cm * 0.16\<close>, for a non-zero calibration,
  and the condition under which \<open>child.py\<close> returns it: elbow and wrist visible, the
  division defined, the estimate within 8 to 18 cm.
\<close>

definition forearm_wrist_circ :: "landmarks \<Rightarrow> side \<Rightarrow> int \<Rightarrow> int \<Rightarrow> real \<Rightarrow> real" where
  "forearm_wrist_circ landmarks sd image_w image_h pixel_per_cm =
     hypot ((lm_x (landmarks (wrist_of sd)) - lm_x (landmarks (elbow_of sd))) * real_of_int image_w)
           ((lm_y (landmarks (wrist_of sd)) - lm_y (landmarks (elbow_of sd))) * real_of_int image_h)
       / pixel_per_cm * 0.16"

definition arm_accepted_child :: "landmarks \<Rightarrow> side \<Rightarrow> int \<Rightarrow> int \<Rightarrow> real \<Rightarrow> bool" where
  "arm_accepted_child landmarks sd image_w image_h pixel_per_cm \<longleftrightarrow>
     visibility (landmarks (elbow_of sd)) > 0.3 \<and> visibility (landmarks (wrist_of sd)) > 0.3
   \<and> pixel_per_cm \<noteq> 0
   \<and> 8 \<le> forearm_wrist_circ landmarks sd image_w image_h pixel_per_cm
   \<and> forearm_wrist_circ landmarks sd image_w image_h pixel_per_cm \<le> 18"

text \<open>A run reaches the last resort when it prints "Using typical child wrist circumference".\<close>

definition reaches_typical :: "error + (MeasurementResult \<times> event list) \<Rightarrow> bool" where
  "reaches_typical r = (case r of Inl e \<Rightarrow> False | Inr (res, msgs) \<Rightarrow> UsingTypical \<in> set msgs)"

subsection \<open>Concrete inputs\<close>

text \<open>
  A 1000 x 1000 image with two ruler-like contours: a 100 x 30 rectangle of contour area
  2900 and a 200 x 10 rectangle of contour area 1900.
\<close>

definition two_rulers :: image where
  "two_rulers =
     \<lparr> img_shape = (1000, 1000),
       scale_contours =
         [\<lparr> contourArea = 2900, minAreaRect = ((500, 500), (100, 30), 0) \<rparr>,
          \<lparr> contourArea = 1900, minAreaRect = ((200, 200), (200, 10), 0) \<rparr>],
       pose_landmarks = None,
       crop_edges = (\<lambda>c. []),
       crop_edges2 = (\<lambda>c. []),
       crop_thresh_contours = (\<lambda>c. []) \<rparr>"

text \<open>A landmark set of a standing subject, every landmark fully visible.\<close>

definition mk_landmark :: "real \<Rightarrow> real \<Rightarrow> real \<Rightarrow> landmark" where
  "mk_landmark x y v = \<lparr> lm_x = x, lm_y = y, visibility = v \<rparr>"

fun standing_child :: landmarks where
  "standing_child NOSE = mk_landmark 0.5 0.2 1"
| "standing_child LEFT_EYE = mk_landmark 0.53 0.18 1"
| "standing_child RIGHT_EYE = mk_landmark 0.47 0.18 1"
| "standing_child LEFT_EAR = mk_landmark 0.56 0.19 1"
| "standing_child RIGHT_EAR = mk_landmark 0.44 0.19 1"
| "standing_child LEFT_SHOULDER = mk_landmark 0.62 0.3 1"
| "standing_child RIGHT_SHOULDER = mk_landmark 0.38 0.3 1"
| "standing_child LEFT_ELBOW = mk_landmark 0.65 0.42 1"
| "standing_child RIGHT_ELBOW = mk_landmark 0.35 0.42 1"
| "standing_child LEFT_WRIST = mk_landmark 0.65 0.54 1"
| "standing_child RIGHT_WRIST = mk_landmark 0.35 0.54 1"
| "standing_child LEFT_ANKLE = mk_landmark 0.55 0.9 1"
| "standing_child RIGHT_ANKLE = mk_landmark 0.45 0.9 1"
| "standing_child LEFT_HEEL = mk_landmark 0.55 0.92 1"
| "standing_child RIGHT_HEEL = mk_landmark 0.45 0.92 1"
| "standing_child LEFT_FOOT_INDEX = mk_landmark 0.56 0.94 1"
| "standing_child RIGHT_FOOT_INDEX = mk_landmark 0.44 0.94 1"

text \<open>The same subject with the left shoulder hardly visible (visibility 0.1).\<close>

definition shoulder_hidden :: landmarks where
  "shoulder_hidden = standing_child (LEFT_SHOULDER := mk_landmark 0.62 0.3 0.1)"

text \<open>
  A 100 x 40 image (\<open>h = 40\<close>, \<open>w = 100\<close>) of that subject, with one ruler-like contour of
  58.5 x 4 pixels. The edge map of a wrist crop has two edge pixels in every row, at the
  columns 36 and 48.
\<close>

definition edge_row :: "nat \<Rightarrow> bool list" where
  "edge_row n = map (\<lambda>i. i = 36 \<or> i = 48) [0 ..< n]"

definition photo :: image where
  "photo =
     \<lparr> img_shape = (40, 100),
       scale_contours = [\<lparr> contourArea = 200, minAreaRect = ((50, 35), (58.5, 4), 0) \<rparr>],
       pose_landmarks = Some standing_child,
       crop_edges = (\<lambda>(y0, y1, x0, x1). replicate (nat (y1 - y0)) (edge_row (nat (x1 - x0)))),
       crop_edges2 = (\<lambda>(y0, y1, x0, x1). replicate (nat (y1 - y0)) (replicate (nat (x1 - x0)) False)),
       crop_thresh_contours = (\<lambda>c. []) \<rparr>"

text \<open>The same image with no edge pixel in any wrist crop.\<close>

definition photo_no_edges :: image where
  "photo_no_edges =
     photo \<lparr> crop_edges := (\<lambda>(y0, y1, x0, x1). replicate (nat (y1 - y0)) (replicate (nat (x1 - x0)) False)) \<rparr>"

text \<open>
  The same image again, whose only contour is a single point: its area is 0 and its
  minimum-area rectangle has the size \<open>(0, 0)\<close>.
\<close>

definition speck :: image where
  "speck = photo_no_edges \<lparr> scale_contours := [\<lparr> contourArea = 0, minAreaRect = ((10, 10), (0, 0), 0) \<rparr>] \<rparr>"

text \<open>What \<open>process_image\<close> of \<open>child.py\<close> returns on \<open>photo\<close> and on \<open>photo_no_edges\<close>.\<close>

definition photo_result :: MeasurementResult where
  "photo_result =
     \<lparr> res_height_cm = 320 / 39,
       res_head_circumference_cm = pi * (40 / 13) * 1.08,
       res_wrist_circumference_cm = Some (pi * 4),
       res_wrist_fallback_used = False,
       res_pixel_per_cm = 39 / 10 \<rparr>"

definition photo_no_edges_result :: MeasurementResult where
  "photo_no_edges_result =
     \<lparr> res_height_cm = 320 / 39,
       res_head_circumference_cm = pi * (40 / 13) * 1.08,
       res_wrist_circumference_cm = Some (27 / 2),
       res_wrist_fallback_used = True,
       res_pixel_per_cm = 39 / 10 \<rparr>"

section \<open>Properties\<close>

subsection \<open>Sorting and selection\<close>

lemma sorted_key_last_max:
  "sorted (map f ys) \<Longrightarrow> y \<in> set ys \<Longrightarrow> f y \<le> f (last ys)"
proof (induction ys)
  case Nil
  then show ?case by simp
next
  case (Cons a ys)
  then show ?case by (cases "ys = []") auto
qed

lemma py_sort_desc_hd_mem: "xs \<noteq> [] \<Longrightarrow> hd (py_sort_desc f xs) \<in> set xs"
proof -
  assume ne: "xs \<noteq> []"
  then have "sort_key f (rev xs) \<noteq> []"
    by (metis length_sort length_rev length_0_conv)
  then have "last (sort_key f (rev xs)) \<in> set (sort_key f (rev xs))"
    by (rule last_in_set)
  then show ?thesis
    by (simp add: py_sort_desc_def hd_rev)
qed

lemma py_sort_desc_hd_max: "y \<in> set xs \<Longrightarrow> f y \<le> f (hd (py_sort_desc f xs))"
proof -
  assume mem: "y \<in> set xs"
  have "sorted (map f (sort_key f (rev xs)))"
    by (rule sorted_sort_key)
  moreover from mem have "y \<in> set (sort_key f (rev xs))"
    by simp
  ultimately have "f y \<le> f (last (sort_key f (rev xs)))"
    by (rule sorted_key_last_max)
  then show ?thesis
    by (simp add: py_sort_desc_def hd_rev)
qed

subsection \<open>Scale detector\<close>

text \<open>The fourth component of a candidate of \<open>2.py\<close> is the aspect ratio of its rectangle.\<close>

lemma scale_candidates_2_aspect:
  "c \<in> set (scale_candidates_2 w h cnts) \<Longrightarrow> snd (snd (snd c)) = rect_aspect (fst (snd (snd c)))"
  by (induction cnts) (auto simp: Let_def rect_aspect_def split: if_splits)

lemma two_rulers_candidates_child:
  "scale_candidates_child 1000 1000 (scale_contours two_rulers)
     = [(2900, 100, ((500, 500), (100, 30), 0)), (1900, 200, ((200, 200), (200, 10), 0))]"
  by (simp add: two_rulers_def)

lemma two_rulers_candidates_2:
  "scale_candidates_2 1000 1000 (scale_contours two_rulers)
     = [(1900, 200, ((200, 200), (200, 10), 0), 200 / (10 + 1 / 100000000))]"
  by (simp add: two_rulers_def)

text \<open>
  C1, as the code has it. When the candidate list is not empty, the detector returns the long
  side of one of the candidates. In \<open>2.py\<close> that candidate is maximal for the lexicographic
  order on \<open>(aspect, long_side)\<close>: no candidate has a greater aspect ratio, and no candidate
  of the same aspect ratio has a greater long side. In \<open>child.py\<close> the candidates are ranked
  by contour area, and the chosen candidate is one of maximal area.
\<close>

theorem scale_detector_choice:
  "(scale_candidates_2 (snd (img_shape img)) (fst (img_shape img)) (scale_contours img) \<noteq> [] \<longrightarrow>
      (\<exists>c \<in> set (scale_candidates_2 (snd (img_shape img)) (fst (img_shape img)) (scale_contours img)).
          detect_scale_pixel_length_2 img = Some (fst (snd c))
        \<and> (\<forall>d \<in> set (scale_candidates_2 (snd (img_shape img)) (fst (img_shape img)) (scale_contours img)).
              rect_aspect (fst (snd (snd d))) \<le> rect_aspect (fst (snd (snd c)))
            \<and> (rect_aspect (fst (snd (snd d))) = rect_aspect (fst (snd (snd c)))
                 \<longrightarrow> fst (snd d) \<le> fst (snd c)))))
 \<and> (scale_candidates_child (snd (img_shape img)) (fst (img_shape img)) (scale_contours img) \<noteq> [] \<longrightarrow>
      (\<exists>c \<in> set (scale_candidates_child (snd (img_shape img)) (fst (img_shape img)) (scale_contours img)).
          detect_scale_pixel_length_child img = Some (fst (snd c))
        \<and> (\<forall>d \<in> set (scale_candidates_child (snd (img_shape img)) (fst (img_shape img)) (scale_contours img)).
              fst d \<le> fst c)))"
proof (intro conjI impI)
  let ?cs = "scale_candidates_2 (snd (img_shape img)) (fst (img_shape img)) (scale_contours img)"
  let ?k = "\<lambda>x :: real \<times> real \<times> rect \<times> real. (snd (snd (snd x)), fst (snd x))"
  let ?c = "hd (py_sort_desc ?k ?cs)"
  assume ne: "?cs \<noteq> []"
  have mem: "?c \<in> set ?cs"
    using ne by (rule py_sort_desc_hd_mem)
  have res: "detect_scale_pixel_length_2 img = Some (fst (snd ?c))"
    using ne by (simp add: detect_scale_pixel_length_2_def Let_def)
  have mx: "rect_aspect (fst (snd (snd d))) \<le> rect_aspect (fst (snd (snd ?c)))
            \<and> (rect_aspect (fst (snd (snd d))) = rect_aspect (fst (snd (snd ?c)))
                 \<longrightarrow> fst (snd d) \<le> fst (snd ?c))" if d: "d \<in> set ?cs" for d
  proof -
    have "?k d \<le> ?k ?c"
      using d by (rule py_sort_desc_hd_max)
    then have "snd (snd (snd d)) \<le> snd (snd (snd ?c))
               \<and> (snd (snd (snd d)) = snd (snd (snd ?c)) \<longrightarrow> fst (snd d) \<le> fst (snd ?c))"
      by (auto simp: less_eq_prod_def)
    then show ?thesis
      using scale_candidates_2_aspect [OF d] scale_candidates_2_aspect [OF mem] by simp
  qed
  show "\<exists>c \<in> set ?cs. detect_scale_pixel_length_2 img = Some (fst (snd c))
        \<and> (\<forall>d \<in> set ?cs.
              rect_aspect (fst (snd (snd d))) \<le> rect_aspect (fst (snd (snd c)))
            \<and> (rect_aspect (fst (snd (snd d))) = rect_aspect (fst (snd (snd c)))
                 \<longrightarrow> fst (snd d) \<le> fst (snd c)))"
    using mem res mx by blast
next
  let ?cs = "scale_candidates_child (snd (img_shape img)) (fst (img_shape img)) (scale_contours img)"
  let ?k = "\<lambda>x :: real \<times> real \<times> rect. fst x"
  let ?c = "hd (py_sort_desc ?k ?cs)"
  assume ne: "?cs \<noteq> []"
  have mem: "?c \<in> set ?cs"
    using ne by (rule py_sort_desc_hd_mem)
  have res: "detect_scale_pixel_length_child img = Some (fst (snd ?c))"
    using ne by (simp add: detect_scale_pixel_length_child_def Let_def)
  have mx: "fst d \<le> fst ?c" if d: "d \<in> set ?cs" for d
    using d by (rule py_sort_desc_hd_max)
  show "\<exists>c \<in> set ?cs. detect_scale_pixel_length_child img = Some (fst (snd c))
        \<and> (\<forall>d \<in> set ?cs. fst d \<le> fst c)"
    using mem res mx by blast
qed

text \<open>
  C1, witness: on the image \<open>two_rulers\<close> both candidate lists are non-empty, and the
  conclusions of the theorem hold there.
\<close>

theorem scale_detector_choice_witness:
  "scale_candidates_2 1000 1000 (scale_contours two_rulers) \<noteq> []
 \<and> scale_candidates_child 1000 1000 (scale_contours two_rulers) \<noteq> []
 \<and> (\<exists>c \<in> set (scale_candidates_2 1000 1000 (scale_contours two_rulers)).
        detect_scale_pixel_length_2 two_rulers = Some (fst (snd c))
      \<and> (\<forall>d \<in> set (scale_candidates_2 1000 1000 (scale_contours two_rulers)).
            rect_aspect (fst (snd (snd d))) \<le> rect_aspect (fst (snd (snd c)))
          \<and> (rect_aspect (fst (snd (snd d))) = rect_aspect (fst (snd (snd c)))
               \<longrightarrow> fst (snd d) \<le> fst (snd c))))
 \<and> (\<exists>c \<in> set (scale_candidates_child 1000 1000 (scale_contours two_rulers)).
        detect_scale_pixel_length_child two_rulers = Some (fst (snd c))
      \<and> (\<forall>d \<in> set (scale_candidates_child 1000 1000 (scale_contours two_rulers)).
            fst d \<le> fst c))"
proof -
  have shape: "snd (img_shape two_rulers) = 1000" "fst (img_shape two_rulers) = 1000"
    by (simp_all add: two_rulers_def)
  have ne2: "scale_candidates_2 1000 1000 (scale_contours two_rulers) \<noteq> []"
    by (simp add: two_rulers_candidates_2)
  have nec: "scale_candidates_child 1000 1000 (scale_contours two_rulers) \<noteq> []"
    by (simp add: two_rulers_candidates_child)
  from scale_detector_choice [of two_rulers] ne2 nec show ?thesis
    unfolding shape by blast
qed

text \<open>
  C1, counterexample to the claim as stated. On \<open>two_rulers\<close> the detector of \<open>child.py\<close>
  has the two candidates below and returns 100, the long side of the first; the second
  candidate has a strictly greater aspect ratio, so the chosen candidate is not maximal for
  \<open>(aspect, long_side)\<close>.
\<close>

theorem scale_detector_child_not_lex_max:
  "scale_candidates_child 1000 1000 (scale_contours two_rulers)
     = [(2900, 100, ((500, 500), (100, 30), 0)), (1900, 200, ((200, 200), (200, 10), 0))]
   \<and> detect_scale_pixel_length_child two_rulers = Some 100
   \<and> rect_aspect ((500, 500), (100, 30), 0) < rect_aspect ((200, 200), (200, 10), 0)"
  by (simp add: two_rulers_def detect_scale_pixel_length_child_def py_sort_desc_def rect_aspect_def)

subsection \<open>Landmark to pixel\<close>

lemma py_int_bounds:
  "(0 \<le> r \<longrightarrow> real_of_int (py_int r) \<le> r \<and> r < real_of_int (py_int r) + 1)
 \<and> (r < 0 \<longrightarrow> real_of_int (py_int r) - 1 < r \<and> r \<le> real_of_int (py_int r))"
  unfolding py_int_def by (auto; linarith)

text \<open>
  C3, as the code has it. \<open>landmark_point_to_pixel\<close> converts with \<open>int\<close>, which truncates
  towards zero: each pixel coordinate is the integer part of \<open>lm.x * w\<close> (of \<open>lm.y * h\<close>),
  the greatest integer below a non-negative product and the least integer above a negative
  one. It is not the nearest integer.
\<close>

theorem landmark_point_to_pixel_truncates:
  "(0 \<le> lm_x lm * real_of_int w \<longrightarrow>
       real_of_int (fst (landmark_point_to_pixel lm w h)) \<le> lm_x lm * real_of_int w
     \<and> lm_x lm * real_of_int w < real_of_int (fst (landmark_point_to_pixel lm w h)) + 1)
 \<and> (lm_x lm * real_of_int w < 0 \<longrightarrow>
       real_of_int (fst (landmark_point_to_pixel lm w h)) - 1 < lm_x lm * real_of_int w
     \<and> lm_x lm * real_of_int w \<le> real_of_int (fst (landmark_point_to_pixel lm w h)))
 \<and> (0 \<le> lm_y lm * real_of_int h \<longrightarrow>
       real_of_int (snd (landmark_point_to_pixel lm w h)) \<le> lm_y lm * real_of_int h
     \<and> lm_y lm * real_of_int h < real_of_int (snd (landmark_point_to_pixel lm w h)) + 1)
 \<and> (lm_y lm * real_of_int h < 0 \<longrightarrow>
       real_of_int (snd (landmark_point_to_pixel lm w h)) - 1 < lm_y lm * real_of_int h
     \<and> lm_y lm * real_of_int h \<le> real_of_int (snd (landmark_point_to_pixel lm w h)))"
  using py_int_bounds [of "lm_x lm * real_of_int w"] py_int_bounds [of "lm_y lm * real_of_int h"]
  by (simp add: landmark_point_to_pixel_def)

text \<open>
  C3, witness: the landmark \<open>(0.127, 0.458)\<close> in a 100 x 100 image, where both products are
  non-negative.
\<close>

theorem landmark_point_to_pixel_truncates_witness:
  "0 \<le> lm_x (mk_landmark 0.127 0.458 1) * real_of_int 100
 \<and> 0 \<le> lm_y (mk_landmark 0.127 0.458 1) * real_of_int 100
 \<and> real_of_int (fst (landmark_point_to_pixel (mk_landmark 0.127 0.458 1) 100 100))
      \<le> lm_x (mk_landmark 0.127 0.458 1) * real_of_int 100
 \<and> lm_x (mk_landmark 0.127 0.458 1) * real_of_int 100
      < real_of_int (fst (landmark_point_to_pixel (mk_landmark 0.127 0.458 1) 100 100)) + 1
 \<and> real_of_int (snd (landmark_point_to_pixel (mk_landmark 0.127 0.458 1) 100 100))
      \<le> lm_y (mk_landmark 0.127 0.458 1) * real_of_int 100
 \<and> lm_y (mk_landmark 0.127 0.458 1) * real_of_int 100
      < real_of_int (snd (landmark_point_to_pixel (mk_landmark 0.127 0.458 1) 100 100)) + 1"
proof -
  have nx: "0 \<le> lm_x (mk_landmark 0.127 0.458 1) * real_of_int 100"
    and ny: "0 \<le> lm_y (mk_landmark 0.127 0.458 1) * real_of_int 100"
    by (simp_all add: mk_landmark_def)
  from landmark_point_to_pixel_truncates [of "mk_landmark 0.127 0.458 1" 100 100] nx ny show ?thesis
    by blast
qed

text \<open>
  C3, counterexample to the claim as stated. For the landmark \<open>(0.127, 0.458)\<close> in a
  100 x 100 image the code returns the pixel \<open>(12, 45)\<close>, and rounding \<open>12.7\<close> and \<open>45.8\<close>
  to the nearest integer gives \<open>(13, 46)\<close>.
\<close>

theorem landmark_point_to_pixel_not_round:
  "landmark_point_to_pixel (mk_landmark 0.127 0.458 1) 100 100 = (12, 45)
 \<and> (round (lm_x (mk_landmark 0.127 0.458 1) * real_of_int 100),
     round (lm_y (mk_landmark 0.127 0.458 1) * real_of_int 100)) = (13, 46)"
  by (simp add: landmark_point_to_pixel_def mk_landmark_def py_int_def round_def)


subsection \<open>Head circumference\<close>

lemma hypot_zero_left: "hypot 0 b = \<bar>b\<bar>"
  by (simp add: hypot_def)

lemma hypot_zero_right: "hypot a 0 = \<bar>a\<bar>"
  by (simp add: hypot_def)

lemma hypot_pixel_distance:
  "hypot (real_of_int (fst q - fst p)) (real_of_int (snd q - snd p)) = pixel_distance p q"
  by (simp add: hypot_def pixel_distance_def)

text \<open>
  C7. For a strictly positive calibration \<open>measure_head_circumference\<close> of \<open>child.py\<close>
  returns a value and raises nothing. The head width is the Euclidean distance between the
  pixels of the two ears when both ears have a visibility above 0.3, and otherwise the
  distance between the pixels of the two eyes multiplied by 1.6; the value returned is
  \<open>pi * (width / pixel_per_cm) * 1.08\<close>.
\<close>

theorem head_circumference_formula:
  assumes "0 < pixel_per_cm"
  shows "measure_head_circumference_child landmarks image_w image_h pixel_per_cm =
     Inr (pi
          * ((if visibility (landmarks LEFT_EAR) > 0.3 \<and> visibility (landmarks RIGHT_EAR) > 0.3
              then pixel_distance (landmark_point_to_pixel (landmarks LEFT_EAR) image_w image_h)
                                  (landmark_point_to_pixel (landmarks RIGHT_EAR) image_w image_h)
              else pixel_distance (landmark_point_to_pixel (landmarks LEFT_EYE) image_w image_h)
                                  (landmark_point_to_pixel (landmarks RIGHT_EYE) image_w image_h)
                   * 1.6)
             / pixel_per_cm)
          * 1.08)"
  using assms
  by (simp add: measure_head_circumference_child_def Let_def py_truediv_def
      hypot_pixel_distance [symmetric] split: prod.splits)

text \<open>
  C7, witness: the standing subject in a 100 x 40 image with 3.9 pixels per centimetre.
\<close>

theorem head_circumference_formula_witness:
  "(0::real) < 39 / 10
 \<and> measure_head_circumference_child standing_child 100 40 (39 / 10) =
     Inr (pi
          * ((if visibility (standing_child LEFT_EAR) > 0.3 \<and> visibility (standing_child RIGHT_EAR) > 0.3
              then pixel_distance (landmark_point_to_pixel (standing_child LEFT_EAR) 100 40)
                                  (landmark_point_to_pixel (standing_child RIGHT_EAR) 100 40)
              else pixel_distance (landmark_point_to_pixel (standing_child LEFT_EYE) 100 40)
                                  (landmark_point_to_pixel (standing_child RIGHT_EYE) 100 40)
                   * 1.6)
             / (39 / 10))
          * 1.08)"
proof -
  have pos: "(0::real) < 39 / 10" by simp
  from head_circumference_formula [OF pos, of standing_child 100 40] pos show ?thesis
    by blast
qed

text \<open>
  C10. \<open>measure_head_circumference\<close> of \<open>child.py\<close> and of \<open>2.py\<close> return the same result on
  every landmark set, image size and calibration (the same value, or the same error when the
  calibration is zero).
\<close>

theorem head_circumference_variants_agree:
  "measure_head_circumference_child landmarks image_w image_h pixel_per_cm
     = measure_head_circumference_2 landmarks image_w image_h pixel_per_cm"
  by (simp add: measure_head_circumference_child_def measure_head_circumference_2_def)


subsection \<open>Wrist circumference, primary path\<close>

lemma side_circumference_band:
  assumes "v \<in> set (side_circumference ws p lo hi)"
  shows "lo \<le> v \<and> v \<le> hi"
proof -
  define c where "c = pi * (np_median ws / p) * 1.3"
  have "side_circumference ws p lo hi =
          (if ws \<noteq> [] then if p = 0 then [] else if lo \<le> c \<and> c \<le> hi then [c] else [] else [])"
    unfolding side_circumference_def Let_def c_def by (rule refl)
  with assms show ?thesis
    by (auto split: if_splits)
qed

lemma wrist_side_child_band:
  "v \<in> set (wrist_side_child landmarks img image_w image_h pixel_per_cm sd) \<Longrightarrow> 8 \<le> v \<and> v \<le> 16"
  by (auto simp: wrist_side_child_def split: option.splits dest: side_circumference_band)

lemma wrist_side_2_band:
  "v \<in> set (wrist_side_2 landmarks img image_w image_h pixel_per_cm sd) \<Longrightarrow> 6 \<le> v \<and> v \<le> 25"
  by (auto simp: wrist_side_2_def split: option.splits dest: side_circumference_band)

lemma wrist_measurements_child_band:
  "v \<in> set (wrist_measurements_child landmarks img image_w image_h pixel_per_cm) \<Longrightarrow> 8 \<le> v \<and> v \<le> 16"
  unfolding wrist_measurements_child_def using wrist_side_child_band by auto

lemma wrist_measurements_2_band:
  "v \<in> set (wrist_measurements_2 landmarks img image_w image_h pixel_per_cm) \<Longrightarrow> 6 \<le> v \<and> v \<le> 25"
  unfolding wrist_measurements_2_def using wrist_side_2_band by auto

lemma sum_list_upper: "\<forall>v \<in> set ms. v \<le> hi \<Longrightarrow> sum_list ms \<le> real (length ms) * (hi::real)"
  by (induction ms) (auto simp: algebra_simps)

lemma sum_list_lower: "\<forall>v \<in> set ms. lo \<le> v \<Longrightarrow> real (length ms) * (lo::real) \<le> sum_list ms"
  by (induction ms) (auto simp: algebra_simps)

lemma np_mean_band:
  assumes ne: "ms \<noteq> []" and band: "\<forall>v \<in> set ms. lo \<le> v \<and> v \<le> hi"
  shows "lo \<le> np_mean ms \<and> np_mean ms \<le> hi"
proof -
  have pos: "0 < real (length ms)"
    using ne by simp
  have up: "sum_list ms \<le> real (length ms) * hi"
    using band by (intro sum_list_upper) simp
  have low: "real (length ms) * lo \<le> sum_list ms"
    using band by (intro sum_list_lower) simp
  from pos up low show ?thesis
    unfolding np_mean_def by (simp add: pos_le_divide_eq pos_divide_le_eq mult.commute)
qed

text \<open>The primary path on the image \<open>photo\<close>.\<close>

lemma widths_85: "scanline_widths (replicate 40 (edge_row 85)) 20 10 10 80 = [12, 12, 12, 12, 12, 12, 12, 12, 12, 12]"
  by code_simp

lemma widths_95:
  "scanline_widths
     (replicate 40 (map2 (\<or>) (edge_row 95) (replicate 95 False))) 20 13 5 120
   = [12, 12, 12, 12, 12, 12, 12, 12, 12, 12, 12, 12, 12]"
  by code_simp

lemma widths_none: "scanline_widths (replicate 40 (replicate 85 False)) 20 10 10 80 = []"
  by code_simp

lemma median_12: "np_median [12, 12, 12, 12, 12, 12, 12, 12, 12, 12] = 12"
  by (simp add: np_median_def Let_def)

lemma median_12_odd: "np_median [12, 12, 12, 12, 12, 12, 12, 12, 12, 12, 12, 12, 12] = 12"
  by (simp add: np_median_def Let_def)

lemma four_pi_band: "8 \<le> pi * 4" "pi * 4 \<le> 16" "pi \<le> 4" "2 \<le> pi"
  using pi_ge_two pi_less_4 by simp_all

lemma four_pi_relaxed: "6 \<le> pi * 4" "pi * 4 \<le> 25" "3 \<le> 2 * pi" "4 * pi \<le> 25"
  using pi_ge_two pi_less_4 by linarith+

lemma photo_widths_left:
  "wrist_widths_child standing_child photo 100 40 LEFT = Some [12, 12, 12, 12, 12, 12, 12, 12, 12, 12]"
  by (simp add: wrist_widths_child_def landmark_point_to_pixel_def py_int_def mk_landmark_def
      np_slice_len_def photo_def widths_85 Let_def)

lemma photo_widths_right:
  "wrist_widths_child standing_child photo 100 40 RIGHT = Some [12, 12, 12, 12, 12, 12, 12, 12, 12, 12]"
  by (simp add: wrist_widths_child_def landmark_point_to_pixel_def py_int_def mk_landmark_def
      np_slice_len_def photo_def widths_85 Let_def)

lemma photo_side_left:
  "wrist_side_child standing_child photo 100 40 (39 / 10) LEFT = [pi * 4]"
  by (simp add: wrist_side_child_def photo_widths_left side_circumference_def median_12 four_pi_band)

lemma photo_side_right:
  "wrist_side_child standing_child photo 100 40 (39 / 10) RIGHT = [pi * 4]"
  by (simp add: wrist_side_child_def photo_widths_right side_circumference_def median_12 four_pi_band)

lemma photo_measurements_child:
  "wrist_measurements_child standing_child photo 100 40 (39 / 10) = [pi * 4, pi * 4]"
  by (simp add: wrist_measurements_child_def photo_side_left photo_side_right)

lemma photo_wrist: "measure_wrist_circumference_child standing_child photo 100 40 (39 / 10) = Some (pi * 4)"
  by (simp add: measure_wrist_circumference_child_def wrist_measurements_child_def
      photo_side_left photo_side_right np_mean_def)

lemma photo_widths_2:
  "wrist_widths_2 standing_child photo 100 40 sd = Some [12, 12, 12, 12, 12, 12, 12, 12, 12, 12, 12, 12, 12]"
  by (cases sd)
     (simp_all add: wrist_widths_2_def landmark_point_to_pixel_def py_int_def mk_landmark_def
        np_slice_len_def photo_def widths_95 Let_def)

lemma photo_side_2:
  "wrist_side_2 standing_child photo 100 40 (39 / 10) sd = [pi * 4]"
  by (simp add: wrist_side_2_def photo_widths_2 side_circumference_def median_12_odd four_pi_relaxed)

lemma photo_measurements_2:
  "wrist_measurements_2 standing_child photo 100 40 (39 / 10) = [pi * 4, pi * 4]"
  by (simp add: wrist_measurements_2_def photo_side_2)

lemma photo_wrist_2: "measure_wrist_circumference_2 standing_child photo 100 40 (39 / 10) = Some (pi * 4)"
  by (simp add: measure_wrist_circumference_2_def photo_measurements_2 np_mean_def)

text \<open>
  C5. In \<open>measure_wrist_circumference\<close> every accepted per-side value lies in the band (8 to
  16 cm in \<open>child.py\<close>, 6 to 25 cm in \<open>2.py\<close>); the function returns the arithmetic mean of
  the accepted values when there is at least one and \<open>None\<close> when there is none; so every
  value it returns lies in the band.
\<close>

theorem wrist_primary_band_and_mean:
  "(\<forall>v \<in> set (wrist_measurements_child landmarks img image_w image_h pixel_per_cm). 8 \<le> v \<and> v \<le> 16)
 \<and> measure_wrist_circumference_child landmarks img image_w image_h pixel_per_cm
      = (if wrist_measurements_child landmarks img image_w image_h pixel_per_cm = [] then None
         else Some (sum_list (wrist_measurements_child landmarks img image_w image_h pixel_per_cm)
                    / real (length (wrist_measurements_child landmarks img image_w image_h pixel_per_cm))))
 \<and> (\<forall>v. measure_wrist_circumference_child landmarks img image_w image_h pixel_per_cm = Some v
         \<longrightarrow> 8 \<le> v \<and> v \<le> 16)
 \<and> (\<forall>v \<in> set (wrist_measurements_2 landmarks img image_w image_h pixel_per_cm). 6 \<le> v \<and> v \<le> 25)
 \<and> measure_wrist_circumference_2 landmarks img image_w image_h pixel_per_cm
      = (if wrist_measurements_2 landmarks img image_w image_h pixel_per_cm = [] then None
         else Some (sum_list (wrist_measurements_2 landmarks img image_w image_h pixel_per_cm)
                    / real (length (wrist_measurements_2 landmarks img image_w image_h pixel_per_cm))))
 \<and> (\<forall>v. measure_wrist_circumference_2 landmarks img image_w image_h pixel_per_cm = Some v
         \<longrightarrow> 6 \<le> v \<and> v \<le> 25)"
proof (intro conjI allI impI ballI)
  fix v
  assume "v \<in> set (wrist_measurements_child landmarks img image_w image_h pixel_per_cm)"
  then show "8 \<le> v" "v \<le> 16"
    using wrist_measurements_child_band by blast+
next
  show "measure_wrist_circumference_child landmarks img image_w image_h pixel_per_cm
      = (if wrist_measurements_child landmarks img image_w image_h pixel_per_cm = [] then None
         else Some (sum_list (wrist_measurements_child landmarks img image_w image_h pixel_per_cm)
                    / real (length (wrist_measurements_child landmarks img image_w image_h pixel_per_cm))))"
    by (simp add: measure_wrist_circumference_child_def np_mean_def Let_def)
next
  fix v
  assume "measure_wrist_circumference_child landmarks img image_w image_h pixel_per_cm = Some v"
  then have ne: "wrist_measurements_child landmarks img image_w image_h pixel_per_cm \<noteq> []"
    and v: "v = np_mean (wrist_measurements_child landmarks img image_w image_h pixel_per_cm)"
    by (auto simp: measure_wrist_circumference_child_def Let_def split: if_splits)
  have "\<forall>x \<in> set (wrist_measurements_child landmarks img image_w image_h pixel_per_cm). 8 \<le> x \<and> x \<le> 16"
    using wrist_measurements_child_band by blast
  from np_mean_band [OF ne this] v
  show "8 \<le> v" "v \<le> 16" by simp_all
next
  fix v
  assume "v \<in> set (wrist_measurements_2 landmarks img image_w image_h pixel_per_cm)"
  then show "6 \<le> v" "v \<le> 25"
    using wrist_measurements_2_band by blast+
next
  show "measure_wrist_circumference_2 landmarks img image_w image_h pixel_per_cm
      = (if wrist_measurements_2 landmarks img image_w image_h pixel_per_cm = [] then None
         else Some (sum_list (wrist_measurements_2 landmarks img image_w image_h pixel_per_cm)
                    / real (length (wrist_measurements_2 landmarks img image_w image_h pixel_per_cm))))"
    by (simp add: measure_wrist_circumference_2_def np_mean_def Let_def)
next
  fix v
  assume "measure_wrist_circumference_2 landmarks img image_w image_h pixel_per_cm = Some v"
  then have ne: "wrist_measurements_2 landmarks img image_w image_h pixel_per_cm \<noteq> []"
    and v: "v = np_mean (wrist_measurements_2 landmarks img image_w image_h pixel_per_cm)"
    by (auto simp: measure_wrist_circumference_2_def Let_def split: if_splits)
  have "\<forall>x \<in> set (wrist_measurements_2 landmarks img image_w image_h pixel_per_cm). 6 \<le> x \<and> x \<le> 25"
    using wrist_measurements_2_band by blast
  from np_mean_band [OF ne this] v
  show "6 \<le> v" "v \<le> 25" by simp_all
qed

text \<open>
  C5, witness: on \<open>photo\<close>, with 3.9 pixels per centimetre, both wrists are accepted with the
  value \<open>4 * pi\<close> in both variants, and the mean \<open>4 * pi\<close> is returned.
\<close>

theorem wrist_primary_band_and_mean_witness:
  "pi * 4 \<in> set (wrist_measurements_child standing_child photo 100 40 (39 / 10))
 \<and> 8 \<le> pi * 4 \<and> pi * 4 \<le> 16
 \<and> measure_wrist_circumference_child standing_child photo 100 40 (39 / 10) = Some (pi * 4)
 \<and> pi * 4 \<in> set (wrist_measurements_2 standing_child photo 100 40 (39 / 10))
 \<and> 6 \<le> pi * 4 \<and> pi * 4 \<le> 25
 \<and> measure_wrist_circumference_2 standing_child photo 100 40 (39 / 10) = Some (pi * 4)"
proof -
  have mc: "pi * 4 \<in> set (wrist_measurements_child standing_child photo 100 40 (39 / 10))"
    by (simp add: photo_measurements_child)
  have m2: "pi * 4 \<in> set (wrist_measurements_2 standing_child photo 100 40 (39 / 10))"
    by (simp add: photo_measurements_2)
  from wrist_primary_band_and_mean [of standing_child photo 100 40 "39 / 10"] mc m2 photo_wrist photo_wrist_2
  show ?thesis
    by blast
qed


subsection \<open>Wrist circumference, arm-length fallback\<close>

lemma py_uniform_band:
  "0 \<le> u \<Longrightarrow> u < 1 \<Longrightarrow> 12.5 \<le> py_uniform 12.5 14.5 u \<and> py_uniform 12.5 14.5 u \<le> 14.5"
  by (simp add: py_uniform_def)

lemma standing_estimate:
  "estimate_wrist_from_arm_length_child standing_child 100 40 (39 / 10) (1 / 2)
     = (27 / 2, [Attempting, ArmVisibility LEFT, Forearm LEFT, OutOfRange LEFT,
                 ArmVisibility RIGHT, Forearm RIGHT, OutOfRange RIGHT, UsingTypical])"
  by (simp add: estimate_wrist_from_arm_length_child_def estimate_with_def try_arm_child_def
      py_truediv_def Let_def mk_landmark_def hypot_zero_left py_uniform_def)

lemma standing_estimate_2:
  "estimate_wrist_from_arm_length_2 standing_child 100 40 (39 / 10) (1 / 2)
     = (27 / 2, [Attempting, ArmVisibility LEFT, Forearm LEFT, OutOfRange LEFT,
                 ArmVisibility RIGHT, Forearm RIGHT, OutOfRange RIGHT, UsingTypical])"
  by (simp add: estimate_wrist_from_arm_length_2_def estimate_with_def try_arm_2_def
      py_truediv_def Let_def mk_landmark_def hypot_zero_left py_uniform_def)

lemma standing_not_accepted:
  "\<not> arm_accepted_child standing_child LEFT 100 40 (39 / 10)"
  "\<not> arm_accepted_child standing_child RIGHT 100 40 (39 / 10)"
  by (simp_all add: arm_accepted_child_def forearm_wrist_circ_def mk_landmark_def hypot_zero_left)

text \<open>
  One arm of \<open>child.py\<close> reads the elbow and the wrist only: two landmark sets that differ
  at most in the shoulders give the same messages and the same result.
\<close>

lemma try_arm_child_shoulder_independent:
  assumes "\<forall>lm. lm \<noteq> LEFT_SHOULDER \<and> lm \<noteq> RIGHT_SHOULDER \<longrightarrow> landmarks' lm = landmarks lm"
  shows "try_arm_child landmarks' sd image_w image_h pixel_per_cm
           = try_arm_child landmarks sd image_w image_h pixel_per_cm"
proof -
  have "landmarks' (elbow_of sd) = landmarks (elbow_of sd)"
    and "landmarks' (wrist_of sd) = landmarks (wrist_of sd)"
    using assms by (cases sd; simp)+
  then show ?thesis
    by (simp add: try_arm_child_def)
qed

text \<open>
  C2, as the code has it. In \<open>estimate_wrist_from_arm_length\<close> the visibilities of the left
  arm are reported first, and those of the right arm after them or not at all; the forearm
  estimate is computed for the left arm before the right arm, and at most once for each arm.
  In \<open>child.py\<close> an arm's estimate is computed only if the visibilities of its elbow and of
  its wrist each exceed 0.3, and the shoulder is not read: the value returned and the
  messages printed are the same for two landmark sets that differ at most in the shoulders.
  In \<open>2.py\<close> an arm's estimate is computed only if the visibilities of its shoulder, its
  elbow and its wrist each exceed 0.3. For a non-zero calibration these conditions are also
  sufficient for the left arm, which is always examined.
\<close>

theorem arm_fallback_order_and_eligibility:
  "arms_checked (snd (estimate_wrist_from_arm_length_child landmarks image_w image_h pixel_per_cm u))
     \<in> {[LEFT], [LEFT, RIGHT]}
 \<and> arms_tried (snd (estimate_wrist_from_arm_length_child landmarks image_w image_h pixel_per_cm u))
     \<in> {[], [LEFT], [RIGHT], [LEFT, RIGHT]}
 \<and> (\<forall>sd \<in> set (arms_tried (snd (estimate_wrist_from_arm_length_child
                                      landmarks image_w image_h pixel_per_cm u))).
        visibility (landmarks (elbow_of sd)) > 0.3 \<and> visibility (landmarks (wrist_of sd)) > 0.3)
 \<and> arms_checked (snd (estimate_wrist_from_arm_length_2 landmarks image_w image_h pixel_per_cm u))
     \<in> {[LEFT], [LEFT, RIGHT]}
 \<and> arms_tried (snd (estimate_wrist_from_arm_length_2 landmarks image_w image_h pixel_per_cm u))
     \<in> {[], [LEFT], [RIGHT], [LEFT, RIGHT]}
 \<and> (\<forall>sd \<in> set (arms_tried (snd (estimate_wrist_from_arm_length_2
                                      landmarks image_w image_h pixel_per_cm u))).
        visibility (landmarks (shoulder_of sd)) > 0.3
      \<and> visibility (landmarks (elbow_of sd)) > 0.3 \<and> visibility (landmarks (wrist_of sd)) > 0.3)
 \<and> (\<forall>landmarks'.
        (\<forall>lm. lm \<noteq> LEFT_SHOULDER \<and> lm \<noteq> RIGHT_SHOULDER \<longrightarrow> landmarks' lm = landmarks lm) \<longrightarrow>
        estimate_wrist_from_arm_length_child landmarks' image_w image_h pixel_per_cm u
          = estimate_wrist_from_arm_length_child landmarks image_w image_h pixel_per_cm u)
 \<and> (pixel_per_cm \<noteq> 0 \<longrightarrow>
        (LEFT \<in> set (arms_tried (snd (estimate_wrist_from_arm_length_child
                                         landmarks image_w image_h pixel_per_cm u)))
           \<longleftrightarrow> visibility (landmarks LEFT_ELBOW) > 0.3 \<and> visibility (landmarks LEFT_WRIST) > 0.3)
      \<and> (LEFT \<in> set (arms_tried (snd (estimate_wrist_from_arm_length_2
                                         landmarks image_w image_h pixel_per_cm u)))
           \<longleftrightarrow> visibility (landmarks LEFT_SHOULDER) > 0.3
               \<and> visibility (landmarks LEFT_ELBOW) > 0.3 \<and> visibility (landmarks LEFT_WRIST) > 0.3))"
proof (intro conjI)
  show "arms_checked (snd (estimate_wrist_from_arm_length_child landmarks image_w image_h pixel_per_cm u))
     \<in> {[LEFT], [LEFT, RIGHT]}"
    by (simp add: estimate_wrist_from_arm_length_child_def estimate_with_def try_arm_child_def
        py_truediv_def Let_def)
  show "arms_tried (snd (estimate_wrist_from_arm_length_child landmarks image_w image_h pixel_per_cm u))
     \<in> {[], [LEFT], [RIGHT], [LEFT, RIGHT]}"
    by (simp add: estimate_wrist_from_arm_length_child_def estimate_with_def try_arm_child_def
        py_truediv_def Let_def)
  show "\<forall>sd \<in> set (arms_tried (snd (estimate_wrist_from_arm_length_child
                                      landmarks image_w image_h pixel_per_cm u))).
        visibility (landmarks (elbow_of sd)) > 0.3 \<and> visibility (landmarks (wrist_of sd)) > 0.3"
    by (simp add: estimate_wrist_from_arm_length_child_def estimate_with_def try_arm_child_def
        py_truediv_def Let_def)
  show "arms_checked (snd (estimate_wrist_from_arm_length_2 landmarks image_w image_h pixel_per_cm u))
     \<in> {[LEFT], [LEFT, RIGHT]}"
    by (simp add: estimate_wrist_from_arm_length_2_def estimate_with_def try_arm_2_def
        py_truediv_def Let_def)
  show "arms_tried (snd (estimate_wrist_from_arm_length_2 landmarks image_w image_h pixel_per_cm u))
     \<in> {[], [LEFT], [RIGHT], [LEFT, RIGHT]}"
    by (simp add: estimate_wrist_from_arm_length_2_def estimate_with_def try_arm_2_def
        py_truediv_def Let_def)
  show "\<forall>sd \<in> set (arms_tried (snd (estimate_wrist_from_arm_length_2
                                      landmarks image_w image_h pixel_per_cm u))).
        visibility (landmarks (shoulder_of sd)) > 0.3
      \<and> visibility (landmarks (elbow_of sd)) > 0.3 \<and> visibility (landmarks (wrist_of sd)) > 0.3"
    by (simp add: estimate_wrist_from_arm_length_2_def estimate_with_def try_arm_2_def
        py_truediv_def Let_def)
  show "\<forall>landmarks'.
        (\<forall>lm. lm \<noteq> LEFT_SHOULDER \<and> lm \<noteq> RIGHT_SHOULDER \<longrightarrow> landmarks' lm = landmarks lm) \<longrightarrow>
        estimate_wrist_from_arm_length_child landmarks' image_w image_h pixel_per_cm u
          = estimate_wrist_from_arm_length_child landmarks image_w image_h pixel_per_cm u"
  proof (intro allI impI)
    fix landmarks' :: landmarks
    assume agree: "\<forall>lm. lm \<noteq> LEFT_SHOULDER \<and> lm \<noteq> RIGHT_SHOULDER \<longrightarrow> landmarks' lm = landmarks lm"
    show "estimate_wrist_from_arm_length_child landmarks' image_w image_h pixel_per_cm u
          = estimate_wrist_from_arm_length_child landmarks image_w image_h pixel_per_cm u"
      unfolding estimate_wrist_from_arm_length_child_def
      by (simp add: try_arm_child_shoulder_independent [OF agree])
  qed
  show "pixel_per_cm \<noteq> 0 \<longrightarrow>
        (LEFT \<in> set (arms_tried (snd (estimate_wrist_from_arm_length_child
                                         landmarks image_w image_h pixel_per_cm u)))
           \<longleftrightarrow> visibility (landmarks LEFT_ELBOW) > 0.3 \<and> visibility (landmarks LEFT_WRIST) > 0.3)
      \<and> (LEFT \<in> set (arms_tried (snd (estimate_wrist_from_arm_length_2
                                         landmarks image_w image_h pixel_per_cm u)))
           \<longleftrightarrow> visibility (landmarks LEFT_SHOULDER) > 0.3
               \<and> visibility (landmarks LEFT_ELBOW) > 0.3 \<and> visibility (landmarks LEFT_WRIST) > 0.3)"
    by (simp add: estimate_wrist_from_arm_length_child_def estimate_wrist_from_arm_length_2_def
        estimate_with_def try_arm_child_def try_arm_2_def py_truediv_def Let_def)
qed

text \<open>
  C2, witness: for the standing subject, with 3.9 pixels per centimetre, the left arm is
  tried in both variants, and its shoulder, elbow and wrist are visible; \<open>shoulder_hidden\<close>
  differs from it in the left shoulder only, and \<open>child.py\<close> returns the same on both.
\<close>

theorem arm_fallback_order_and_eligibility_witness:
  "LEFT \<in> set (arms_tried (snd (estimate_wrist_from_arm_length_child standing_child 100 40 (39 / 10) (1 / 2))))
 \<and> visibility (standing_child (elbow_of LEFT)) > 0.3
 \<and> visibility (standing_child (wrist_of LEFT)) > 0.3
 \<and> LEFT \<in> set (arms_tried (snd (estimate_wrist_from_arm_length_2 standing_child 100 40 (39 / 10) (1 / 2))))
 \<and> visibility (standing_child (shoulder_of LEFT)) > 0.3
 \<and> arms_tried (snd (estimate_wrist_from_arm_length_child standing_child 100 40 (39 / 10) (1 / 2)))
     \<in> {[], [LEFT], [RIGHT], [LEFT, RIGHT]}
 \<and> arms_checked (snd (estimate_wrist_from_arm_length_2 standing_child 100 40 (39 / 10) (1 / 2)))
     \<in> {[LEFT], [LEFT, RIGHT]}
 \<and> estimate_wrist_from_arm_length_child shoulder_hidden 100 40 (39 / 10) (1 / 2)
     = estimate_wrist_from_arm_length_child standing_child 100 40 (39 / 10) (1 / 2)
 \<and> (39 / 10 :: real) \<noteq> 0
 \<and> visibility (standing_child LEFT_ELBOW) > 0.3
 \<and> visibility (standing_child LEFT_WRIST) > 0.3
 \<and> visibility (standing_child LEFT_SHOULDER) > 0.3"
proof -
  have tc: "LEFT \<in> set (arms_tried (snd (estimate_wrist_from_arm_length_child standing_child 100 40 (39 / 10) (1 / 2))))"
    by (simp add: standing_estimate)
  have t2: "LEFT \<in> set (arms_tried (snd (estimate_wrist_from_arm_length_2 standing_child 100 40 (39 / 10) (1 / 2))))"
    by (simp add: standing_estimate_2)
  have agree: "\<forall>lm. lm \<noteq> LEFT_SHOULDER \<and> lm \<noteq> RIGHT_SHOULDER \<longrightarrow> shoulder_hidden lm = standing_child lm"
    by (simp add: shoulder_hidden_def)
  have nz: "(39 / 10 :: real) \<noteq> 0"
    by simp
  from arm_fallback_order_and_eligibility [of standing_child 100 40 "39 / 10" "1 / 2"] tc t2 agree nz
  show ?thesis
    by blast
qed

text \<open>
  C2, counterexample to the claim as stated. With the left shoulder at visibility 0.1, in a
  1000 x 1000 image with 1.6 pixels per centimetre, \<open>child.py\<close> computes the estimate of the
  left arm and returns it (12 cm).
\<close>

theorem arm_fallback_child_ignores_shoulder:
  "visibility (shoulder_hidden LEFT_SHOULDER) = 1 / 10
 \<and> estimate_wrist_from_arm_length_child shoulder_hidden 1000 1000 (8 / 5) (1 / 2)
     = (12, [Attempting, ArmVisibility LEFT, Forearm LEFT, EstimatedFrom LEFT])"
  by (simp add: estimate_wrist_from_arm_length_child_def estimate_with_def try_arm_child_def
      py_truediv_def Let_def shoulder_hidden_def mk_landmark_def hypot_zero_left)

text \<open>On the same input \<open>2.py\<close> passes over the left arm and returns the estimate of the right arm.\<close>

lemma shoulder_hidden_2:
  "estimate_wrist_from_arm_length_2 shoulder_hidden 1000 1000 (8 / 5) (1 / 2)
     = (12, [Attempting, ArmVisibility LEFT, ArmVisibility RIGHT, Forearm RIGHT, EstimatedFrom RIGHT])"
  by (simp add: estimate_wrist_from_arm_length_2_def estimate_with_def try_arm_2_def
      py_truediv_def Let_def shoulder_hidden_def mk_landmark_def hypot_zero_left)

lemma estimate_child_typical_iff:
  "UsingTypical \<in> set (snd (estimate_wrist_from_arm_length_child landmarks image_w image_h pixel_per_cm u))
     \<longleftrightarrow> \<not> arm_accepted_child landmarks LEFT image_w image_h pixel_per_cm
       \<and> (pixel_per_cm = 0 \<and> visibility (landmarks LEFT_ELBOW) > 0.3 \<and> visibility (landmarks LEFT_WRIST) > 0.3
          \<or> \<not> arm_accepted_child landmarks RIGHT image_w image_h pixel_per_cm)"
  by (auto simp: estimate_wrist_from_arm_length_child_def estimate_with_def try_arm_child_def
      py_truediv_def Let_def arm_accepted_child_def forearm_wrist_circ_def)

lemma estimate_child_typical_value:
  "UsingTypical \<in> set (snd (estimate_wrist_from_arm_length_child landmarks image_w image_h pixel_per_cm u))
   \<Longrightarrow> fst (estimate_wrist_from_arm_length_child landmarks image_w image_h pixel_per_cm u)
         = py_uniform 12.5 14.5 u"
  by (auto simp: estimate_wrist_from_arm_length_child_def estimate_with_def try_arm_child_def
      py_truediv_def Let_def split: if_splits)

lemma estimate_child_attempting:
  "Attempting \<in> set (snd (estimate_wrist_from_arm_length_child landmarks image_w image_h pixel_per_cm u))"
  by (auto simp: estimate_wrist_from_arm_length_child_def estimate_with_def try_arm_child_def
      py_truediv_def Let_def split: if_splits)

lemma estimate_child_independent:
  "UsingTypical \<notin> set (snd (estimate_wrist_from_arm_length_child landmarks image_w image_h pixel_per_cm u1))
   \<Longrightarrow> estimate_wrist_from_arm_length_child landmarks image_w image_h pixel_per_cm u2
         = estimate_wrist_from_arm_length_child landmarks image_w image_h pixel_per_cm u1"
  by (auto simp: estimate_wrist_from_arm_length_child_def estimate_with_def try_arm_child_def
      py_truediv_def Let_def split: if_splits)


subsection \<open>Orchestrator\<close>

lemma scale_candidates_child_positive:
  "c \<in> set (scale_candidates_child w h cnts) \<Longrightarrow> 0 < fst (snd c)"
  by (induction cnts) (auto simp: Let_def split: if_splits)

text \<open>When there is a ruler candidate, the length returned in \<open>child.py\<close> is strictly positive.\<close>

lemma candidate_scale_positive:
  assumes "scale_candidates_child (snd (img_shape img)) (fst (img_shape img)) (scale_contours img) \<noteq> []"
  shows "\<exists>l. detect_scale_pixel_length_child img = Some l \<and> 0 < l"
proof -
  let ?cs = "scale_candidates_child (snd (img_shape img)) (fst (img_shape img)) (scale_contours img)"
  have "hd (py_sort_desc (\<lambda>x. fst x) ?cs) \<in> set ?cs"
    using assms by (rule py_sort_desc_hd_mem)
  then have "0 < fst (snd (hd (py_sort_desc (\<lambda>x. fst x) ?cs)))"
    by (rule scale_candidates_child_positive)
  then show ?thesis
    using assms by (simp add: detect_scale_pixel_length_child_def Let_def)
qed

lemma pixel_height_eq:
  "pixel_height landmarks h = max 0 (estimate_feet_y landmarks h - estimate_head_top_y landmarks h)"
  by (simp add: pixel_height_def Let_def)

lemma pixel_height_nonneg: "0 \<le> pixel_height landmarks h"
  by (simp add: pixel_height_def Let_def)

lemma estimate_feet_y_le: "estimate_feet_y landmarks h \<le> real_of_int h"
  by (simp add: estimate_feet_y_def Let_def)

text \<open>What a successful run of \<open>process_image\<close> has computed.\<close>

lemma process_image_child_success:
  assumes run: "process_image_child imread u = Inr (res, msgs)"
  shows "\<exists>img pixel_length landmarks head_circ_cm.
       imread = Some img
     \<and> detect_scale_pixel_length_child img = Some pixel_length
     \<and> pixel_length \<noteq> 0
     \<and> pose_landmarks img = Some landmarks
     \<and> measure_head_circumference_child landmarks (snd (img_shape img)) (fst (img_shape img))
          (pixel_length / 15) = Inr head_circ_cm
     \<and> res_pixel_per_cm res = pixel_length / 15
     \<and> res_height_cm res = pixel_height landmarks (fst (img_shape img)) / (pixel_length / 15)
     \<and> res_head_circumference_cm res = head_circ_cm
     \<and> (case measure_wrist_circumference_child landmarks img (snd (img_shape img))
                (fst (img_shape img)) (pixel_length / 15) of
           Some v \<Rightarrow>
             msgs = [] \<and> \<not> res_wrist_fallback_used res
           \<and> res_wrist_circumference_cm res = (if v \<noteq> 0 then Some v else None)
         | None \<Rightarrow>
             msgs = snd (estimate_wrist_from_arm_length_child landmarks (snd (img_shape img))
                           (fst (img_shape img)) (pixel_length / 15) u)
           \<and> res_wrist_fallback_used res
           \<and> res_wrist_circumference_cm res =
               (if fst (estimate_wrist_from_arm_length_child landmarks (snd (img_shape img))
                          (fst (img_shape img)) (pixel_length / 15) u) \<noteq> 0
                then Some (fst (estimate_wrist_from_arm_length_child landmarks (snd (img_shape img))
                                  (fst (img_shape img)) (pixel_length / 15) u))
                else None))"
proof -
  from run obtain img where img: "imread = Some img"
    by (cases imread) (simp_all add: process_image_child_def)
  from run img obtain pl where pl: "detect_scale_pixel_length_child img = Some pl"
    by (cases "detect_scale_pixel_length_child img") (simp_all add: process_image_child_def)
  from run img pl obtain L where L: "pose_landmarks img = Some L"
    by (cases "pose_landmarks img") (simp_all add: process_image_child_def Let_def)
  have nz: "pl \<noteq> 0"
  proof
    assume "pl = 0"
    with run img pl L show False
      by (simp add: process_image_child_def Let_def py_truediv_def)
  qed
  then have div: "py_truediv (pixel_height L (fst (img_shape img))) (pl / 15)
                    = Inr (pixel_height L (fst (img_shape img)) / (pl / 15))"
    by (simp add: py_truediv_def)
  from run img pl L div obtain hc where
    hc: "measure_head_circumference_child L (snd (img_shape img)) (fst (img_shape img)) (pl / 15) = Inr hc"
    by (cases "measure_head_circumference_child L (snd (img_shape img)) (fst (img_shape img)) (pl / 15)")
       (simp_all add: process_image_child_def Let_def)
  show ?thesis
  proof (cases "measure_wrist_circumference_child L img (snd (img_shape img)) (fst (img_shape img)) (pl / 15)")
    case None
    with run img pl L div hc have
      "res = \<lparr> res_height_cm = pixel_height L (fst (img_shape img)) / (pl / 15),
               res_head_circumference_cm = hc,
               res_wrist_circumference_cm =
                 (if fst (estimate_wrist_from_arm_length_child L (snd (img_shape img))
                            (fst (img_shape img)) (pl / 15) u) \<noteq> 0
                  then Some (fst (estimate_wrist_from_arm_length_child L (snd (img_shape img))
                                    (fst (img_shape img)) (pl / 15) u))
                  else None),
               res_wrist_fallback_used = True,
               res_pixel_per_cm = pl / 15 \<rparr>"
      and "msgs = snd (estimate_wrist_from_arm_length_child L (snd (img_shape img))
                           (fst (img_shape img)) (pl / 15) u)"
      by (auto simp: process_image_child_def Let_def case_prod_beta)
    with img pl nz L hc None show ?thesis
      by simp
  next
    case (Some v)
    with run img pl L div hc have
      "res = \<lparr> res_height_cm = pixel_height L (fst (img_shape img)) / (pl / 15),
               res_head_circumference_cm = hc,
               res_wrist_circumference_cm = (if v \<noteq> 0 then Some v else None),
               res_wrist_fallback_used = False,
               res_pixel_per_cm = pl / 15 \<rparr>"
      and "msgs = []"
      by (auto simp: process_image_child_def Let_def case_prod_beta)
    with img pl nz L hc Some show ?thesis
      by simp
  qed
qed

text \<open>The runs on the concrete images.\<close>

lemma photo_fields:
  "img_shape photo = (40, 100)" "pose_landmarks photo = Some standing_child"
  "img_shape photo_no_edges = (40, 100)" "pose_landmarks photo_no_edges = Some standing_child"
  "img_shape speck = (40, 100)" "pose_landmarks speck = Some standing_child"
  by (simp_all add: photo_def photo_no_edges_def speck_def)

lemma photo_scale: "detect_scale_pixel_length_child photo = Some (117 / 2)"
  by (simp add: detect_scale_pixel_length_child_def photo_def py_sort_desc_def Let_def)

lemma photo_no_edges_scale: "detect_scale_pixel_length_child photo_no_edges = Some (117 / 2)"
  by (simp add: detect_scale_pixel_length_child_def photo_no_edges_def photo_def py_sort_desc_def Let_def)

lemma speck_scale: "detect_scale_pixel_length_child speck = Some 0"
  by (simp add: detect_scale_pixel_length_child_def speck_def photo_no_edges_def photo_def
      largest_contour_long_side_def py_max_key_def Let_def)

lemma standing_top: "estimate_head_top_y standing_child 40 = 28 / 5"
  by (simp add: estimate_head_top_y_def mk_landmark_def Let_def)

lemma standing_feet: "estimate_feet_y standing_child 40 = 188 / 5"
  by (simp add: estimate_feet_y_def mk_landmark_def Let_def)

lemma standing_height: "pixel_height standing_child 40 = 32"
  by (simp add: pixel_height_def standing_top standing_feet)

lemma standing_head: "measure_head_circumference_child standing_child 100 40 (39 / 10) = Inr (pi * (40 / 13) * 1.08)"
  by (simp add: measure_head_circumference_child_def landmark_point_to_pixel_def py_int_def
      mk_landmark_def py_truediv_def hypot_zero_right)

lemma photo_no_edges_widths:
  "wrist_widths_child standing_child photo_no_edges 100 40 sd = Some []"
  by (cases sd)
     (simp_all add: wrist_widths_child_def landmark_point_to_pixel_def py_int_def mk_landmark_def
        np_slice_len_def photo_no_edges_def photo_def widths_none Let_def)

lemma photo_no_edges_wrist:
  "measure_wrist_circumference_child standing_child photo_no_edges 100 40 (39 / 10) = None"
  by (simp add: measure_wrist_circumference_child_def wrist_measurements_child_def
      wrist_side_child_def photo_no_edges_widths side_circumference_def)

lemma photo_run: "process_image_child (Some photo) u = Inr (photo_result, [])"
  by (simp add: process_image_child_def photo_fields photo_scale standing_height standing_head
      photo_wrist py_truediv_def photo_result_def)

lemma photo_no_edges_run:
  "process_image_child (Some photo_no_edges) (1 / 2)
     = Inr (photo_no_edges_result,
            [Attempting, ArmVisibility LEFT, Forearm LEFT, OutOfRange LEFT,
             ArmVisibility RIGHT, Forearm RIGHT, OutOfRange RIGHT, UsingTypical])"
  by (simp add: process_image_child_def photo_fields photo_no_edges_scale standing_height
      standing_head photo_no_edges_wrist standing_estimate py_truediv_def photo_no_edges_result_def)

text \<open>
  C4, the code at the failing input. The only contour of \<open>speck\<close> is a single point: no
  ruler candidate qualifies, the largest-contour fallback returns the length 0, which is not
  \<open>None\<close>, so the pipeline proceeds past the calibration step with \<open>pixel_per_cm = 0\<close>, and
  the first conversion, \<open>pixel_height / pixel_per_cm\<close>, raises \<open>ZeroDivisionError\<close>.
\<close>

theorem zero_length_scale_divides_by_zero:
  "detect_scale_pixel_length_child speck = Some 0
 \<and> process_image_child (Some speck) (1 / 2) = Inl ZeroDivisionError"
  by (simp add: process_image_child_def photo_fields speck_scale py_truediv_def)

text \<open>
  C8. The pixel height that \<open>process_image\<close> computes is
  \<open>max(0, feet_y - head_top_y)\<close>; it is never negative, whatever the order of the landmarks;
  \<open>estimate_feet_y\<close> is at most \<open>image_h\<close>; and the height of a successful run is that pixel
  height divided by the calibration.
\<close>

theorem pixel_height_clamped:
  "pixel_height landmarks h = max 0 (estimate_feet_y landmarks h - estimate_head_top_y landmarks h)
 \<and> 0 \<le> pixel_height landmarks h
 \<and> estimate_feet_y landmarks h \<le> real_of_int h
 \<and> (\<forall>res msgs. process_image_child (Some img) u = Inr (res, msgs) \<longrightarrow>
       (\<exists>lms. pose_landmarks img = Some lms
            \<and> res_pixel_per_cm res \<noteq> 0
            \<and> res_height_cm res = pixel_height lms (fst (img_shape img)) / res_pixel_per_cm res))"
proof (intro conjI allI impI)
  fix res msgs
  assume "process_image_child (Some img) u = Inr (res, msgs)"
  from process_image_child_success [OF this]
  show "\<exists>lms. pose_landmarks img = Some lms
            \<and> res_pixel_per_cm res \<noteq> 0
            \<and> res_height_cm res = pixel_height lms (fst (img_shape img)) / res_pixel_per_cm res"
    by auto
qed (simp_all add: pixel_height_eq pixel_height_nonneg estimate_feet_y_le)

text \<open>
  C8, witness: the run on \<open>photo\<close>.
\<close>

theorem pixel_height_clamped_witness:
  "process_image_child (Some photo) (1 / 2) = Inr (photo_result, [])
 \<and> (\<exists>lms. pose_landmarks photo = Some lms
          \<and> res_pixel_per_cm photo_result \<noteq> 0
          \<and> res_height_cm photo_result
              = pixel_height lms (fst (img_shape photo)) / res_pixel_per_cm photo_result)"
proof -
  have run: "process_image_child (Some photo) (1 / 2) = Inr (photo_result, [])"
    by (rule photo_run)
  from pixel_height_clamped [of standing_child 40 photo "1 / 2"] run show ?thesis
    by blast
qed

text \<open>
  C6. When neither arm is accepted in the fallback of \<open>child.py\<close> (each arm is ineligible,
  or its estimate is outside 8 to 18 cm, or the calibration is zero), the function prints
  "Using typical child wrist circumference" and returns \<open>random.uniform(12.5, 14.5)\<close>, that
  is \<open>12.5 + 2 * u\<close> for the draw \<open>u\<close> of the random source: a function of the draw alone,
  which lies in \<open>[12.5, 14.5]\<close> for \<open>0 \<le> u < 1\<close>. In a successful run of \<open>process_image\<close>
  the flag \<open>wrist_fallback_used\<close> is true exactly when the fallback was invoked, and when
  the last resort was reached the wrist circumference of the result is that value, not
  \<open>None\<close>.
\<close>

theorem last_resort_wrist_value:
  "(\<not> arm_accepted_child landmarks LEFT image_w image_h pixel_per_cm
    \<and> \<not> arm_accepted_child landmarks RIGHT image_w image_h pixel_per_cm \<longrightarrow>
      UsingTypical \<in> set (snd (estimate_wrist_from_arm_length_child
                                  landmarks image_w image_h pixel_per_cm u))
    \<and> fst (estimate_wrist_from_arm_length_child landmarks image_w image_h pixel_per_cm u)
        = py_uniform 12.5 14.5 u)
 \<and> (0 \<le> u \<and> u < 1 \<longrightarrow> 12.5 \<le> py_uniform 12.5 14.5 u \<and> py_uniform 12.5 14.5 u \<le> 14.5)
 \<and> (\<forall>res msgs. process_image_child imread u = Inr (res, msgs) \<longrightarrow>
       (res_wrist_fallback_used res \<longleftrightarrow> Attempting \<in> set msgs)
     \<and> (UsingTypical \<in> set msgs \<longrightarrow>
           res_wrist_fallback_used res
         \<and> (0 \<le> u \<and> u < 1 \<longrightarrow>
               res_wrist_circumference_cm res = Some (py_uniform 12.5 14.5 u))))"
proof (intro conjI allI impI)
  assume na: "\<not> arm_accepted_child landmarks LEFT image_w image_h pixel_per_cm
    \<and> \<not> arm_accepted_child landmarks RIGHT image_w image_h pixel_per_cm"
  then show ut: "UsingTypical \<in> set (snd (estimate_wrist_from_arm_length_child
                                  landmarks image_w image_h pixel_per_cm u))"
    by (simp add: estimate_child_typical_iff)
  then show "fst (estimate_wrist_from_arm_length_child landmarks image_w image_h pixel_per_cm u)
        = py_uniform 12.5 14.5 u"
    by (rule estimate_child_typical_value)
next
  assume "0 \<le> u \<and> u < 1"
  then show "12.5 \<le> py_uniform 12.5 14.5 u" "py_uniform 12.5 14.5 u \<le> 14.5"
    using py_uniform_band [of u] by simp_all
next
  fix res msgs
  assume run: "process_image_child imread u = Inr (res, msgs)"
  from process_image_child_success [OF run]
  show "res_wrist_fallback_used res \<longleftrightarrow> Attempting \<in> set msgs"
    by (auto simp: estimate_child_attempting split: option.splits)
  assume ut: "UsingTypical \<in> set msgs"
  from process_image_child_success [OF run] ut
  show "res_wrist_fallback_used res"
    by (auto split: option.splits)
  assume u: "0 \<le> u \<and> u < 1"
  then have nz: "py_uniform 12.5 14.5 u \<noteq> 0"
    using py_uniform_band [of u] by simp
  from process_image_child_success [OF run] ut nz
  show "res_wrist_circumference_cm res = Some (py_uniform 12.5 14.5 u)"
    by (auto simp: estimate_child_typical_value split: option.splits)
qed

text \<open>
  C6, witness: the run on \<open>photo_no_edges\<close> with the draw \<open>1/2\<close>, where neither arm is accepted.
\<close>

theorem last_resort_wrist_value_witness:
  "\<not> arm_accepted_child standing_child LEFT 100 40 (39 / 10)
 \<and> \<not> arm_accepted_child standing_child RIGHT 100 40 (39 / 10)
 \<and> (0::real) \<le> 1 / 2 \<and> (1 / 2 :: real) < 1
 \<and> process_image_child (Some photo_no_edges) (1 / 2)
     = Inr (photo_no_edges_result,
            [Attempting, ArmVisibility LEFT, Forearm LEFT, OutOfRange LEFT,
             ArmVisibility RIGHT, Forearm RIGHT, OutOfRange RIGHT, UsingTypical])
 \<and> fst (estimate_wrist_from_arm_length_child standing_child 100 40 (39 / 10) (1 / 2))
     = py_uniform 12.5 14.5 (1 / 2)
 \<and> 12.5 \<le> py_uniform 12.5 14.5 (1 / 2) \<and> py_uniform 12.5 14.5 (1 / 2) \<le> 14.5
 \<and> res_wrist_fallback_used photo_no_edges_result
 \<and> res_wrist_circumference_cm photo_no_edges_result = Some (py_uniform 12.5 14.5 (1 / 2))"
proof -
  have run: "process_image_child (Some photo_no_edges) (1 / 2)
     = Inr (photo_no_edges_result,
            [Attempting, ArmVisibility LEFT, Forearm LEFT, OutOfRange LEFT,
             ArmVisibility RIGHT, Forearm RIGHT, OutOfRange RIGHT, UsingTypical])"
    by (rule photo_no_edges_run)
  have u: "(0::real) \<le> 1 / 2 \<and> (1 / 2 :: real) < 1"
    by simp
  have ut: "UsingTypical \<in> set [Attempting, ArmVisibility LEFT, Forearm LEFT, OutOfRange LEFT,
             ArmVisibility RIGHT, Forearm RIGHT, OutOfRange RIGHT, UsingTypical]"
    by simp
  from last_resort_wrist_value [of standing_child 100 40 "39 / 10" "1 / 2" "Some photo_no_edges"]
    standing_not_accepted run u ut
  show ?thesis
    by blast
qed

text \<open>
  C9. A run of \<open>process_image\<close> that does not reach the last-resort wrist value does not
  depend on the random source: every other run on the same image, with the same outputs of
  the landmark provider and of the image primitives, returns the same result (the same
  record and messages, or the same error).
\<close>

theorem deterministic_without_last_resort:
  assumes "\<not> reaches_typical (process_image_child imread u1)"
  shows "process_image_child imread u2 = process_image_child imread u1"
proof (cases imread)
  case None
  then show ?thesis by (simp add: process_image_child_def)
next
  case img: (Some img)
  show ?thesis
  proof (cases "detect_scale_pixel_length_child img")
    case None
    with img show ?thesis by (simp add: process_image_child_def)
  next
    case pl: (Some pl)
    show ?thesis
    proof (cases "pose_landmarks img")
      case None
      with img pl show ?thesis by (simp add: process_image_child_def Let_def)
    next
      case L: (Some L)
      show ?thesis
      proof (cases "py_truediv (pixel_height L (fst (img_shape img))) (pl / 15)")
        case (Inl e)
        with img pl L show ?thesis by (simp add: process_image_child_def Let_def)
      next
        case d: (Inr height)
        show ?thesis
        proof (cases "measure_head_circumference_child L (snd (img_shape img))
                        (fst (img_shape img)) (pl / 15)")
          case (Inl e)
          with img pl L d show ?thesis by (simp add: process_image_child_def Let_def)
        next
          case hc: (Inr hc)
          show ?thesis
          proof (cases "measure_wrist_circumference_child L img (snd (img_shape img))
                          (fst (img_shape img)) (pl / 15)")
            case (Some v)
            with img pl L d hc show ?thesis by (simp add: process_image_child_def Let_def)
          next
            case None
            from assms img pl L d hc None
            have "UsingTypical \<notin> set (snd (estimate_wrist_from_arm_length_child L
                     (snd (img_shape img)) (fst (img_shape img)) (pl / 15) u1))"
              by (simp add: process_image_child_def Let_def reaches_typical_def case_prod_beta)
            then have "estimate_wrist_from_arm_length_child L (snd (img_shape img))
                         (fst (img_shape img)) (pl / 15) u2
                     = estimate_wrist_from_arm_length_child L (snd (img_shape img))
                         (fst (img_shape img)) (pl / 15) u1"
              by (rule estimate_child_independent)
            with img pl L d hc None show ?thesis
              by (simp add: process_image_child_def Let_def)
          qed
        qed
      qed
    qed
  qed
qed

text \<open>
  C9, witness: the run on \<open>photo\<close>, where the primary wrist path succeeds.
\<close>

theorem deterministic_without_last_resort_witness:
  "\<not> reaches_typical (process_image_child (Some photo) (1 / 2))
 \<and> process_image_child (Some photo) (3 / 4) = process_image_child (Some photo) (1 / 2)"
proof -
  have h: "\<not> reaches_typical (process_image_child (Some photo) (1 / 2))"
    by (simp add: photo_run reaches_typical_def)
  from deterministic_without_last_resort [OF h, of "3 / 4"] h show ?thesis
    by blast
qed


end
